theory Spec2Isabelle
  imports Main "HOL-Library.Code_Target_Numeral"
begin

section \<open>JavaScript values used by the two scripts\<close>

text \<open>
  Strings are \<^typ>\<open>string\<close>: a \<^typ>\<open>char\<close> stands for a UTF-16 code unit below 256, which
  covers every literal of the source. The numbers that \<open>parseInt(s, 10)\<close> can return are
  \<open>NaN\<close>, an integer of magnitude at most \<open>2^53\<close> (an exact double, \<open>-0\<close> identified with
  \<open>0\<close>: neither \<open>!==\<close> nor \<open>toString\<close> tells them apart) and \<open>Beyond n\<close>, the double
  nearest to an integer \<open>n\<close> of larger magnitude. The rounding and the digits printed for
  such a double are floating-point matters that the embedding leaves open: the host
  record below carries the printing function, and \<open>node_beyond_toString\<close> is the one of
  Node, which the example hosts use.
\<close>

datatype number = NaN | Finite int | Beyond int

definition nl :: string where
  "nl = [CHR 0x0A]"

definition dq :: string where
  "dq = [CHR 0x22]"

text \<open>\<open>s.includes(t)\<close>: \<open>t\<close> occurs in \<open>s\<close> as a contiguous run.\<close>

fun str_includes :: "string \<Rightarrow> string \<Rightarrow> bool" where
  "str_includes [] t = (t = [])"
| "str_includes (c # cs) t = (take (length t) (c # cs) = t \<or> str_includes cs t)"

text \<open>\<open>ToString\<close> of an array element that may be missing (\<open>undefined\<close>).\<close>

definition ToString :: "string option \<Rightarrow> string" where
  "ToString v = (case v of None \<Rightarrow> ''undefined'' | Some s \<Rightarrow> s)"

text \<open>White space and line terminators of ECMAScript, among the code units below 256.\<close>

definition is_white_space :: "char \<Rightarrow> bool" where
  "is_white_space c =
     (c \<in> set [CHR 0x09, CHR 0x0A, CHR 0x0B, CHR 0x0C, CHR 0x0D, CHR 0x20, CHR 0xA0])"

definition is_digit :: "char \<Rightarrow> bool" where
  "is_digit c = (48 \<le> (of_char c :: nat) \<and> (of_char c :: nat) \<le> 57)"

definition digit_value :: "char \<Rightarrow> int" where
  "digit_value c = int (of_char c) - 48"

text \<open>
  \<open>parseInt(inputString, 10)\<close>, step by step as ECMAScript gives it: leading white space
  is dropped, one sign is read, the longest run of decimal digits is the number, and
  whatever follows is ignored. With no digit the result is \<open>NaN\<close>.
\<close>

definition parseInt :: "string \<Rightarrow> number" where
  "parseInt inputString =
    (let S = dropWhile is_white_space inputString;
         sign = (if S \<noteq> [] \<and> hd S = CHR ''-'' then - 1 else 1 :: int);
         S' = (if S \<noteq> [] \<and> (hd S = CHR ''+'' \<or> hd S = CHR ''-'') then tl S else S);
         Z = takeWhile is_digit S'
     in if Z = [] then NaN
        else let mathInt = foldl (\<lambda>acc c. 10 * acc + digit_value c) 0 Z;
                 n = sign * mathInt
             in if \<bar>n\<bar> \<le> 2 ^ 53 then Finite n else Beyond n)"

definition digit_char :: "nat \<Rightarrow> char" where
  "digit_char d = ''0123456789'' ! d"

fun digits :: "nat \<Rightarrow> string" where
  "digits n =
     (if n < 10 then [digit_char n] else digits (n div 10) @ [digit_char (n mod 10)])"

declare digits.simps [simp del]

definition decimal :: "int \<Rightarrow> string" where
  "decimal n = (if n < 0 then ''-'' @ digits (nat (- n)) else digits (nat n))"

text \<open>\<open>port.toString()\<close> and the \<open>${port}\<close> of a template string.\<close>

definition toString :: "(int \<Rightarrow> string) \<Rightarrow> number \<Rightarrow> string" where
  "toString beyond x =
     (case x of NaN \<Rightarrow> ''NaN'' | Finite n \<Rightarrow> decimal n | Beyond n \<Rightarrow> beyond n)"

text \<open>
  What Node prints for \<open>Beyond n\<close>. The digit string is rounded to the nearest double,
  ties to the even significand, and to \<open>Infinity\<close> from \<open>2^1024 - 2^970\<close> on
  (\<open>nearest_double\<close>, \<open>None\<close> for \<open>Infinity\<close>). \<open>Number.prototype.toString\<close> then takes
  the shortest digits \<open>s\<close> with \<open>s * 10^j\<close> rounding to the same double, the closest to it
  among these and the even \<open>s\<close> on a tie; up to 21 digits the value is written out with
  its zeros, beyond that with an exponent.
\<close>

fun bit_length :: "nat \<Rightarrow> nat" where
  "bit_length n = (if n = 0 then 0 else Suc (bit_length (n div 2)))"

declare bit_length.simps [simp del]

definition nearest_double :: "nat \<Rightarrow> nat option" where
  "nearest_double m =
     (let e = bit_length m - 53;
          q = m div 2 ^ e;
          r = m mod 2 ^ e;
          q' = (if 2 ^ e < 2 * r \<or> (2 * r = 2 ^ e \<and> odd q) then q + 1 else q);
          x = q' * 2 ^ e
      in if 2 ^ 1024 \<le> x then None else Some x)"

definition shortest_at :: "nat \<Rightarrow> nat \<Rightarrow> nat option" where
  "shortest_at x k =
     (let scale = 10 ^ (length (digits x) - k);
          lo = (x div scale) * scale;
          hi = lo + scale;
          lo_ok = (nearest_double lo = Some x);
          hi_ok = (nearest_double hi = Some x)
      in if lo_ok \<and> hi_ok then
           (if x - lo < hi - x then Some lo
            else if hi - x < x - lo then Some hi
            else if even (lo div scale) then Some lo else Some hi)
         else if lo_ok then Some lo
         else if hi_ok then Some hi
         else None)"

fun shortest :: "nat \<Rightarrow> nat list \<Rightarrow> nat" where
  "shortest x [] = x"
| "shortest x (k # ks) = (case shortest_at x k of Some v \<Rightarrow> v | None \<Rightarrow> shortest x ks)"

fun strip_zeros :: "nat \<Rightarrow> nat" where
  "strip_zeros v = (if v = 0 \<or> v mod 10 \<noteq> 0 then v else strip_zeros (v div 10))"

declare strip_zeros.simps [simp del]

definition print_double :: "nat \<Rightarrow> string" where
  "print_double x =
     (let v = shortest x [1 ..< 18];
          n = length (digits v);
          s = digits (strip_zeros v)
      in if n \<le> 21 then digits v
         else if length s = 1 then s @ ''e+'' @ digits (n - 1)
         else hd s # ''.'' @ tl s @ ''e+'' @ digits (n - 1))"

definition node_beyond_toString :: "int \<Rightarrow> string" where
  "node_beyond_toString n =
     (case nearest_double (nat \<bar>n\<bar>) of
        None \<Rightarrow> (if n < 0 then ''-Infinity'' else ''Infinity'')
      | Some x \<Rightarrow> (if n < 0 then ''-'' @ print_double x else print_double x))"

text \<open>\<open>port !== 8765\<close>. A double beyond \<open>2^53\<close> and \<open>NaN\<close> differ from 8765.\<close>

definition differs_from_8765 :: "number \<Rightarrow> bool" where
  "differs_from_8765 x = (case x of Finite n \<Rightarrow> n \<noteq> 8765 | _ \<Rightarrow> True)"

text \<open>\<open>if (configPath)\<close>: \<open>null\<close>, \<open>undefined\<close> and the empty string are falsy.\<close>

definition truthy :: "string option \<Rightarrow> bool" where
  "truthy v = (case v of None \<Rightarrow> False | Some s \<Rightarrow> s \<noteq> [])"

section \<open>The host and the effects of a run\<close>

text \<open>
  What a script asks of Node and of the machine is a field of the host: \<open>__dirname\<close>,
  \<open>path.join\<close>, \<open>fs.existsSync\<close>, \<open>process.env\<close>, \<open>process.platform\<close>, the result of
  \<open>spawnSync(cmd, args)\<close> and of \<open>execSync(command)\<close> (\<open>Some msg\<close>: it throws an error
  whose message is \<open>msg\<close>).
\<close>

datatype spawn_sync_result = Throws | Returns "int option" "string option"

record host =
  dirname :: string
  path_join :: "string list \<Rightarrow> string"
  existsSync :: "string \<Rightarrow> bool"
  process_env :: "string \<Rightarrow> string option"
  platform :: string
  spawnSync :: "string \<Rightarrow> string list \<Rightarrow> spawn_sync_result"
  execSync :: "string \<Rightarrow> string option"
  beyond_toString :: "int \<Rightarrow> string"

datatype signal = SIGINT | SIGTERM

record spawn_options =
  cwd :: string
  env :: "string \<Rightarrow> string option"
  stdio :: string

text \<open>Every effect of a run, in the order the script performs it.\<close>

datatype event =
    Exists_sync string
  | Console_log string
  | Console_error string
  | Spawn string "string list" spawn_options
  | Kill signal
  | Spawn_sync string "string list"
  | Exec_sync string string

text \<open>
  \<open>Exited c\<close>: the process has ended with exit code \<open>c\<close> (\<open>process.exit(c)\<close>, or the end
  of a script that leaves nothing pending, which is code 0). \<open>Running\<close>: the script has
  returned to the event loop with its handlers registered.
\<close>

datatype status = Running | Exited int

record run =
  trace :: "event list"
  status :: status

section \<open>bin/webssh.js\<close>

definition pythonDir :: "host \<Rightarrow> string" where
  "pythonDir h = path_join h [dirname h, ''..'', ''python'']"

definition venvDir :: "host \<Rightarrow> string" where
  "venvDir h = path_join h [pythonDir h, ''.venv'']"

definition mainPy :: "host \<Rightarrow> string" where
  "mainPy h = path_join h [pythonDir h, ''main.py'']"

definition usage_text :: string where
  "usage_text = concat (map (\<lambda>l. l @ nl)
     ['''',
      ''WebSSH - Touch-friendly web-based terminal'',
      '''',
      ''Usage: webssh [options]'',
      '''',
      ''Options:'',
      ''  -p, --port <port>    Port to listen on (default: 8765)'',
      ''  -c, --config <path>  Path to config.json'',
      ''  -h, --help           Show this help message'',
      '''',
      ''Example:'',
      ''  webssh'',
      ''  webssh -p 8080'',
      ''  webssh -c /path/to/config.json''])"

text \<open>
  The argument loop. The list is \<open>args\<close> from index \<open>i\<close> on; \<open>args[i + 1]\<close> is the head of
  the rest, \<open>undefined\<close> when there is none, and the extra \<open>i++\<close> drops it. The loop ends
  with the two variables, or in the help branch, which prints and exits.
\<close>

datatype scan = Scanned number "string option" | Usage_exit

definition operand :: "string list \<Rightarrow> string option" where
  "operand rest = (case rest of [] \<Rightarrow> None | v # _ \<Rightarrow> Some v)"

fun parse_args :: "string list \<Rightarrow> number \<Rightarrow> string option \<Rightarrow> scan" where
  "parse_args [] port configPath = Scanned port configPath"
| "parse_args (a # rest) port configPath =
     (if a = ''-p'' \<or> a = ''--port'' then
        parse_args (tl rest) (parseInt (ToString (operand rest))) configPath
      else if a = ''-c'' \<or> a = ''--config'' then
        parse_args (tl rest) port (operand rest)
      else if a = ''-h'' \<or> a = ''--help'' then Usage_exit
      else parse_args rest port configPath)"

definition child_env :: "host \<Rightarrow> number \<Rightarrow> string option \<Rightarrow> (string \<Rightarrow> string option)" where
  "child_env h port configPath =
     (let env0 = process_env h;
          env1 = (if differs_from_8765 port
                  then env0(''WEBSSH_PORT'' \<mapsto> toString (beyond_toString h) port) else env0)
      in case configPath of
           Some p \<Rightarrow> if truthy configPath then env1(''WEBSSH_CONFIG'' \<mapsto> p) else env1
         | None \<Rightarrow> env1)"

definition launch :: "host \<Rightarrow> event list \<Rightarrow> string \<Rightarrow> string list \<Rightarrow> run" where
  "launch h probes pythonExe args =
     (case parse_args args (Finite 8765) None of
        Usage_exit \<Rightarrow> \<lparr>trace = probes @ [Console_log usage_text], status = Exited 0\<rparr>
      | Scanned port configPath \<Rightarrow>
          \<lparr>trace = probes @
             [Console_log (''Starting WebSSH on port '' @ toString (beyond_toString h) port @ ''...''),
              Console_log (''Open http://localhost:'' @ toString (beyond_toString h) port
                 @ ''/ in your browser''),
              Spawn pythonExe [mainPy h]
                \<lparr>cwd = pythonDir h, env = child_env h port configPath, stdio = ''inherit''\<rparr>],
           status = Running\<rparr>)"

definition webssh :: "host \<Rightarrow> string list \<Rightarrow> run" where
  "webssh h args =
     (let posix = path_join h [venvDir h, ''bin'', ''python''];
          win = path_join h [venvDir h, ''Scripts'', ''python.exe'']
      in if existsSync h posix then launch h [Exists_sync posix] posix args
         else if existsSync h win then launch h [Exists_sync posix, Exists_sync win] win args
         else \<lparr>trace = [Exists_sync posix, Exists_sync win,
                       Console_error ''Error: Python virtual environment not found.'',
                       Console_error ''Please run: npm run postinstall''],
               status = Exited 1\<rparr>)"

subsection \<open>The handlers registered after the spawn\<close>

datatype async_event = Child_error string | Child_close "int option" | Signal signal

text \<open>\<open>code || 0\<close>: \<open>null\<close> and \<open>0\<close> are falsy.\<close>

definition code_or_0 :: "int option \<Rightarrow> int" where
  "code_or_0 code = (case code of None \<Rightarrow> 0 | Some c \<Rightarrow> if c = 0 then 0 else c)"

text \<open>
  One event delivered to the supervisor. Once the process has exited no handler runs.
  \<open>Kill s\<close> is the call \<open>proc.kill(s)\<close>.
\<close>

definition handle :: "run \<Rightarrow> async_event \<Rightarrow> run" where
  "handle r ev =
     (case status r of
        Exited c \<Rightarrow> r
      | Running \<Rightarrow>
         (case ev of
            Child_error message \<Rightarrow>
              \<lparr>trace = trace r @ [Console_error (''Failed to start WebSSH: '' @ message)],
               status = Exited 1\<rparr>
          | Child_close code \<Rightarrow> \<lparr>trace = trace r, status = Exited (code_or_0 code)\<rparr>
          | Signal SIGINT \<Rightarrow> \<lparr>trace = trace r @ [Kill SIGINT], status = Running\<rparr>
          | Signal SIGTERM \<Rightarrow> \<lparr>trace = trace r @ [Kill SIGTERM], status = Running\<rparr>))"

definition handle_all :: "run \<Rightarrow> async_event list \<Rightarrow> run" where
  "handle_all r evs = foldl handle r evs"

section \<open>scripts/postinstall.js\<close>

text \<open>
  The condition of \<open>findPython\<close> inside its \<open>try\<close>: a throwing \<open>spawnSync\<close> and the
  \<open>TypeError\<close> of \<open>includes\<close> on a \<open>null\<close> output are caught, and the loop goes on.
\<close>

definition probe_ok :: "spawn_sync_result \<Rightarrow> bool" where
  "probe_ok r =
     (case r of
        Throws \<Rightarrow> False
      | Returns st out \<Rightarrow>
          st = Some 0 \<and> (case out of None \<Rightarrow> False | Some s \<Rightarrow> str_includes s ''Python 3''))"

fun findPython_loop :: "host \<Rightarrow> string list \<Rightarrow> event list \<times> string option" where
  "findPython_loop h [] = ([], None)"
| "findPython_loop h (cmd # cmds) =
     (if probe_ok (spawnSync h cmd [''--version''])
      then ([Spawn_sync cmd [''--version'']], Some cmd)
      else (Spawn_sync cmd [''--version''] # fst (findPython_loop h cmds),
            snd (findPython_loop h cmds)))"

definition pythonCommands :: "string list" where
  "pythonCommands = [''python3'', ''python'']"

definition findPython :: "host \<Rightarrow> event list \<times> string option" where
  "findPython h = findPython_loop h pythonCommands"

definition hasUv :: "host \<Rightarrow> bool" where
  "hasUv h = (case spawnSync h ''uv'' [''--version''] of
                Throws \<Rightarrow> False
              | Returns st out \<Rightarrow> st = Some 0)"

definition complete :: "event list \<Rightarrow> run" where
  "complete tr =
     \<lparr>trace = tr @ [Console_log '''', Console_log ''WebSSH installation complete!'',
                     Console_log (''Run '' @ dq @ ''webssh'' @ dq @ '' to start the server.'')],
      status = Exited 0\<rparr>"

definition uv_venv :: "host \<Rightarrow> string" where
  "uv_venv h = ''uv venv '' @ dq @ venvDir h @ dq"

definition uv_install :: "host \<Rightarrow> string" where
  "uv_install h =
     ''uv pip install --python '' @ dq @ venvDir h @ dq @ '' fastapi uvicorn websockets''"

definition with_uv :: "host \<Rightarrow> event list \<Rightarrow> run" where
  "with_uv h tr =
     (case execSync h (uv_venv h) of
        Some message \<Rightarrow>
          \<lparr>trace = tr @ [Console_log ''Using uv for faster installation...'',
                         Exec_sync (uv_venv h) (pythonDir h),
                         Console_error (''Failed to set up environment with uv: '' @ message)],
           status = Exited 1\<rparr>
      | None \<Rightarrow>
         (case execSync h (uv_install h) of
            Some message \<Rightarrow>
              \<lparr>trace = tr @ [Console_log ''Using uv for faster installation...'',
                             Exec_sync (uv_venv h) (pythonDir h),
                             Exec_sync (uv_install h) (pythonDir h),
                             Console_error (''Failed to set up environment with uv: '' @ message)],
               status = Exited 1\<rparr>
          | None \<Rightarrow>
              complete (tr @ [Console_log ''Using uv for faster installation...'',
                              Exec_sync (uv_venv h) (pythonDir h),
                              Exec_sync (uv_install h) (pythonDir h)])))"

definition python_venv :: "host \<Rightarrow> string \<Rightarrow> string" where
  "python_venv h python = python @ '' -m venv '' @ dq @ venvDir h @ dq"

definition pipPath :: "host \<Rightarrow> string" where
  "pipPath h =
     (if platform h = ''win32'' then path_join h [venvDir h, ''Scripts'', ''pip.exe'']
      else path_join h [venvDir h, ''bin'', ''pip''])"

definition pip_install :: "host \<Rightarrow> string" where
  "pip_install h = dq @ pipPath h @ dq @ '' install fastapi uvicorn websockets''"

definition with_pip :: "host \<Rightarrow> string \<Rightarrow> event list \<Rightarrow> run" where
  "with_pip h python tr =
     (case execSync h (python_venv h python) of
        Some message \<Rightarrow>
          \<lparr>trace = tr @ [Console_log ''Using pip for installation...'',
                         Exec_sync (python_venv h python) (pythonDir h),
                         Console_error (''Failed to set up environment with pip: '' @ message)],
           status = Exited 1\<rparr>
      | None \<Rightarrow>
         (case execSync h (pip_install h) of
            Some message \<Rightarrow>
              \<lparr>trace = tr @ [Console_log ''Using pip for installation...'',
                             Exec_sync (python_venv h python) (pythonDir h),
                             Exec_sync (pip_install h) (pythonDir h),
                             Console_error (''Failed to set up environment with pip: '' @ message)],
               status = Exited 1\<rparr>
          | None \<Rightarrow>
              complete (tr @ [Console_log ''Using pip for installation...'',
                              Exec_sync (python_venv h python) (pythonDir h),
                              Exec_sync (pip_install h) (pythonDir h)])))"

definition postinstall :: "host \<Rightarrow> run" where
  "postinstall h =
     (case snd (findPython h) of
        None \<Rightarrow>
          \<lparr>trace = Console_log ''Setting up WebSSH Python environment...'' # fst (findPython h) @
                    [Console_error ''Error: Python 3 is required but not found.'',
                     Console_error ''Please install Python 3.10 or later.''],
           status = Exited 1\<rparr>
      | Some python \<Rightarrow>
          (let tr = Console_log ''Setting up WebSSH Python environment...'' # fst (findPython h) @
                    [Console_log (''Found '' @ python), Spawn_sync ''uv'' [''--version'']]
           in if hasUv h then with_uv h tr else with_pip h python tr))"

section \<open>Observations on a run and example hosts\<close>

text \<open>The paths handed to \<open>fs.existsSync\<close>, and the calls of \<open>spawn\<close>, in order.\<close>

definition fs_checks :: "run \<Rightarrow> string list" where
  "fs_checks r = concat (map (\<lambda>e. case e of Exists_sync p \<Rightarrow> [p] | _ \<Rightarrow> []) (trace r))"

definition spawned :: "run \<Rightarrow> (string \<times> string list \<times> spawn_options) list" where
  "spawned r = concat (map (\<lambda>e. case e of Spawn c a opts \<Rightarrow> [(c, a, opts)] | _ \<Rightarrow> []) (trace r))"

abbreviation posix_python :: "host \<Rightarrow> string" where
  "posix_python h \<equiv> path_join h [venvDir h, ''bin'', ''python'']"

abbreviation windows_python :: "host \<Rightarrow> string" where
  "windows_python h \<equiv> path_join h [venvDir h, ''Scripts'', ''python.exe'']"

text \<open>
  A POSIX host for the closed examples: the package lies under \<open>/opt/webssh\<close>, and
  \<open>path.join\<close> takes the value Node gives on the segments the scripts join.
\<close>

fun slash_join :: "string list \<Rightarrow> string" where
  "slash_join [] = ''.''"
| "slash_join [x] = x"
| "slash_join (x # y # ys) = x @ ''/'' @ slash_join (y # ys)"

definition example_join :: "string list \<Rightarrow> string" where
  "example_join xs =
     (if xs = [''/opt/webssh/bin'', ''..'', ''python''] then ''/opt/webssh/python''
      else slash_join xs)"

definition example_spawnSync :: "string \<Rightarrow> string list \<Rightarrow> spawn_sync_result" where
  "example_spawnSync cmd args =
     (if cmd = ''python3'' \<and> args = [''--version'']
      then Returns (Some 0) (Some (''Python 3.11.4'' @ nl))
      else Returns None None)"

definition provisioned_host :: host where
  "provisioned_host =
     \<lparr>dirname = ''/opt/webssh/bin'', path_join = example_join,
      existsSync = (\<lambda>p. p = ''/opt/webssh/python/.venv/bin/python''),
      process_env = [''HOME'' \<mapsto> ''/root''], platform = ''linux'',
      spawnSync = example_spawnSync, execSync = (\<lambda>c. None),
      beyond_toString = node_beyond_toString\<rparr>"

text \<open>The same host before provisioning: no file exists.\<close>

definition bare_host :: host where
  "bare_host = provisioned_host\<lparr>existsSync := (\<lambda>p. False)\<rparr>"

text \<open>
  What the argument loop reads. \<open>option_tokens\<close> are the elements it compares with the
  option names (the operand after a port or config option is skipped, and nothing is
  read after a help option); \<open>port_operands\<close> and \<open>config_operands\<close> are the values of
  \<open>args[i + 1]\<close> at each port and each config option, in order.
\<close>

fun option_tokens :: "string list \<Rightarrow> string list" where
  "option_tokens [] = []"
| "option_tokens (a # rest) =
     a # (if a = ''-p'' \<or> a = ''--port'' \<or> a = ''-c'' \<or> a = ''--config''
          then option_tokens (tl rest)
          else if a = ''-h'' \<or> a = ''--help'' then [] else option_tokens rest)"

fun port_operands :: "string list \<Rightarrow> string option list" where
  "port_operands [] = []"
| "port_operands (a # rest) =
     (if a = ''-p'' \<or> a = ''--port'' then operand rest # port_operands (tl rest)
      else if a = ''-c'' \<or> a = ''--config'' then port_operands (tl rest)
      else if a = ''-h'' \<or> a = ''--help'' then [] else port_operands rest)"

fun config_operands :: "string list \<Rightarrow> string option list" where
  "config_operands [] = []"
| "config_operands (a # rest) =
     (if a = ''-p'' \<or> a = ''--port'' then config_operands (tl rest)
      else if a = ''-c'' \<or> a = ''--config'' then operand rest # config_operands (tl rest)
      else if a = ''-h'' \<or> a = ''--help'' then [] else config_operands rest)"

definition help_reached :: "string list \<Rightarrow> bool" where
  "help_reached args =
     (''-h'' \<in> set (option_tokens args) \<or> ''--help'' \<in> set (option_tokens args))"

definition final_port :: "string list \<Rightarrow> number" where
  "final_port args =
     (if port_operands args = [] then Finite 8765
      else parseInt (ToString (last (port_operands args))))"

definition final_config :: "string list \<Rightarrow> string option" where
  "final_config args =
     (if config_operands args = [] then None else last (config_operands args))"

text \<open>The value of one variable in the environment handed to each spawn.\<close>

definition spawned_env :: "run \<Rightarrow> string \<Rightarrow> string option list" where
  "spawned_env r k = map (\<lambda>(c, a, opts). env opts k) (spawned r)"

text \<open>The provisioned host started from a shell that exports \<open>WEBSSH_PORT\<close>.\<close>

definition exporting_host :: host where
  "exporting_host = provisioned_host\<lparr>process_env := [''WEBSSH_PORT'' \<mapsto> ''9000'']\<rparr>"

text \<open>The probes (\<open>spawnSync\<close>) and the commands (\<open>execSync\<close>) of a run, in order.\<close>

definition probed :: "run \<Rightarrow> (string \<times> string list) list" where
  "probed r = concat (map (\<lambda>e. case e of Spawn_sync c a \<Rightarrow> [(c, a)] | _ \<Rightarrow> []) (trace r))"

definition executed :: "run \<Rightarrow> string list" where
  "executed r = concat (map (\<lambda>e. case e of Exec_sync c d \<Rightarrow> [c] | _ \<Rightarrow> []) (trace r))"

text \<open>The two provisioning commands and the name in the messages, by the installer chosen.\<close>

definition venv_command :: "host \<Rightarrow> string \<Rightarrow> string" where
  "venv_command h python = (if hasUv h then uv_venv h else python_venv h python)"

definition install_command :: "host \<Rightarrow> string" where
  "install_command h = (if hasUv h then uv_install h else pip_install h)"

definition installer_name :: "host \<Rightarrow> string" where
  "installer_name h = (if hasUv h then ''uv'' else ''pip'')"

text \<open>What a provisioning run does before its first command, once a Python is found.\<close>

definition using_line :: "host \<Rightarrow> string" where
  "using_line h =
     (if hasUv h then ''Using uv for faster installation...''
      else ''Using pip for installation...'')"

definition preamble :: "host \<Rightarrow> string \<Rightarrow> event list" where
  "preamble h python =
     Console_log ''Setting up WebSSH Python environment...'' # fst (findPython h) @
     [Console_log (''Found '' @ python), Spawn_sync ''uv'' [''--version''],
      Console_log (using_line h)]"

text \<open>
  Hosts for the closed examples: one with no Python at all, one where \<open>uv\<close> is installed
  and its install step fails, one where the creation of the environment fails.
\<close>

definition no_python_host :: host where
  "no_python_host = bare_host\<lparr>spawnSync := (\<lambda>cmd args. Returns None None)\<rparr>"

definition uv_host :: host where
  "uv_host = bare_host
     \<lparr>spawnSync := (\<lambda>cmd args. if cmd = ''uv'' then Returns (Some 0) (Some (''uv 0.4.18'' @ nl))
                                else example_spawnSync cmd args),
      execSync := (\<lambda>c. if take 14 c = ''uv pip install'' then Some ''Command failed: uv pip install''
                        else None)\<rparr>"

definition venv_failing_host :: host where
  "venv_failing_host = bare_host\<lparr>execSync := (\<lambda>c. Some ''Command failed: python3 -m venv'')\<rparr>"

lemmas example_defs =
  provisioned_host_def bare_host_def exporting_host_def example_join_def example_spawnSync_def
  pythonDir_def venvDir_def mainPy_def

section \<open>The supervisor's handlers\<close>

lemma handle_all_Nil: "handle_all r [] = r"
  by (simp add: handle_all_def)

lemma handle_all_Cons: "handle_all r (ev # evs) = handle_all (handle r ev) evs"
  by (simp add: handle_all_def)

lemma handle_all_append: "handle_all r (xs @ ys) = handle_all (handle_all r xs) ys"
  by (simp add: handle_all_def)



lemma handle_signal:
  "status r = Running \<Longrightarrow> handle r (Signal s) = \<lparr>trace = trace r @ [Kill s], status = Running\<rparr>"
  by (cases s) (simp_all add: handle_def)

lemma handle_signals:
  "status r = Running \<Longrightarrow>
     handle_all r (map Signal sigs) = \<lparr>trace = trace r @ map Kill sigs, status = Running\<rparr>"
proof (induction sigs arbitrary: r)
  case Nil
  then show ?case by (simp add: handle_all_Nil)
next
  case (Cons s sigs)
  have "status (handle r (Signal s)) = Running"
    using Cons.prems by (simp add: handle_signal)
  from Cons.IH [OF this] show ?case
    using Cons.prems by (simp add: handle_all_Cons handle_signal)
qed

lemma webssh_provisioned_running: "status (webssh provisioned_host []) = Running"
  by (simp add: webssh_def launch_def Let_def example_defs)

text \<open>
  C10. When the close event of the child reports no exit code (\<open>null\<close>: the child was
  ended by a signal), the supervisor exits with code 0, since the handler computes
  \<open>code || 0\<close>; the run is then the very run that a child exiting with code 0 gives.
\<close>

theorem close_without_code_exits_0:
  "status r = Running \<Longrightarrow>
     handle r (Child_close None) = \<lparr>trace = trace r, status = Exited 0\<rparr> \<and>
     handle r (Child_close None) = handle r (Child_close (Some 0))"
  by (simp add: handle_def code_or_0_def)

theorem close_without_code_exits_0_witness:
  "status (webssh provisioned_host []) = Running \<and>
   status (handle (webssh provisioned_host []) (Child_close None)) = Exited 0 \<and>
   handle (webssh provisioned_host []) (Child_close None) =
     handle (webssh provisioned_host []) (Child_close (Some 0))"
proof -
  note w = close_without_code_exits_0 [OF webssh_provisioned_running]
  from w have "status (handle (webssh provisioned_host []) (Child_close None)) = Exited 0"
    by simp
  with w webssh_provisioned_running show ?thesis
    by blast
qed



text \<open>
  C4, the claim as stated fails in its last part: when the child is ended by the signal
  that was forwarded to it, its close event reports no exit code, and the supervisor
  exits with code 0.
\<close>

theorem signal_ended_child_supervisor_exits_0:
  "status (webssh provisioned_host []) = Running \<and>
   handle_all (webssh provisioned_host []) [Signal SIGINT, Child_close None] =
     \<lparr>trace = trace (webssh provisioned_host []) @ [Kill SIGINT], status = Exited 0\<rparr> \<and>
   (None :: int option) \<noteq> Some 0"
  using webssh_provisioned_running
  by (simp add: handle_all_Cons handle_all_Nil handle_def code_or_0_def)

text \<open>
  C4, amended. While the supervisor runs with its child, each SIGINT or SIGTERM it
  receives adds exactly one \<open>proc.kill\<close> call with the same signal name and nothing else;
  a sequence of signals gives the same sequence of calls, one for one and in order. When
  the child afterwards closes with exit code \<open>c\<close> the supervisor exits with \<open>c\<close>, and
  when it closes without an exit code (it was ended by a signal) the supervisor exits
  with 0.
\<close>

theorem signals_forwarded:
  "status r = Running \<Longrightarrow>
     handle r (Signal s) = \<lparr>trace = trace r @ [Kill s], status = Running\<rparr> \<and>
     handle_all r (map Signal sigs) = \<lparr>trace = trace r @ map Kill sigs, status = Running\<rparr> \<and>
     handle_all r (map Signal sigs @ [Child_close (Some c)]) =
       \<lparr>trace = trace r @ map Kill sigs, status = Exited c\<rparr> \<and>
     handle_all r (map Signal sigs @ [Child_close None]) =
       \<lparr>trace = trace r @ map Kill sigs, status = Exited 0\<rparr>"
proof -
  assume run: "status r = Running"
  have many: "handle_all r (map Signal sigs) =
      \<lparr>trace = trace r @ map Kill sigs, status = Running\<rparr>"
    using run by (rule handle_signals)
  have closing: "handle_all r (map Signal sigs @ [Child_close code]) =
      \<lparr>trace = trace r @ map Kill sigs, status = Exited (code_or_0 code)\<rparr>" for code
    by (simp add: handle_all_append many handle_all_Cons handle_all_Nil handle_def)
  have with_code: "handle_all r (map Signal sigs @ [Child_close (Some c)]) =
      \<lparr>trace = trace r @ map Kill sigs, status = Exited c\<rparr>"
    by (simp add: closing code_or_0_def)
  have without_code: "handle_all r (map Signal sigs @ [Child_close None]) =
      \<lparr>trace = trace r @ map Kill sigs, status = Exited 0\<rparr>"
    by (simp add: closing code_or_0_def)
  show ?thesis
    by (intro conjI) (rule handle_signal [OF run] many with_code without_code)+
qed

theorem signals_forwarded_witness:
  "status (webssh provisioned_host []) = Running \<and>
   handle_all (webssh provisioned_host [])
       [Signal SIGINT, Signal SIGINT, Signal SIGTERM, Child_close (Some 130)] =
     \<lparr>trace = trace (webssh provisioned_host []) @ [Kill SIGINT, Kill SIGINT, Kill SIGTERM],
      status = Exited 130\<rparr> \<and>
   handle_all (webssh provisioned_host []) [Signal SIGTERM, Child_close None] =
     \<lparr>trace = trace (webssh provisioned_host []) @ [Kill SIGTERM], status = Exited 0\<rparr>"
proof -
  note w = signals_forwarded [OF webssh_provisioned_running]
  from w [of _ "[SIGINT, SIGINT, SIGTERM]" 130, THEN conjunct2, THEN conjunct2, THEN conjunct1]
  have a: "handle_all (webssh provisioned_host [])
       [Signal SIGINT, Signal SIGINT, Signal SIGTERM, Child_close (Some 130)] =
     \<lparr>trace = trace (webssh provisioned_host []) @ [Kill SIGINT, Kill SIGINT, Kill SIGTERM],
      status = Exited 130\<rparr>"
    by simp
  from w [of _ "[SIGTERM]" _, THEN conjunct2, THEN conjunct2, THEN conjunct2]
  have b: "handle_all (webssh provisioned_host []) [Signal SIGTERM, Child_close None] =
     \<lparr>trace = trace (webssh provisioned_host []) @ [Kill SIGTERM], status = Exited 0\<rparr>"
    by simp
  show ?thesis
    by (intro conjI) (rule webssh_provisioned_running a b)+
qed

section \<open>The launcher\<close>

lemmas eval_defs =
  ToString_def operand_def parseInt_def is_white_space_def is_digit_def digit_value_def
  toString_def decimal_def digits.simps digit_char_def differs_from_8765_def truthy_def
  child_env_def

lemma fs_checks_launch:
  "fs_checks (launch h probes exe args) = fs_checks \<lparr>trace = probes, status = Running\<rparr>"
  by (simp add: launch_def fs_checks_def split: scan.splits)

lemma spawned_launch:
  "spawned (launch h probes exe args) =
     spawned \<lparr>trace = probes, status = Running\<rparr> @
     (case parse_args args (Finite 8765) None of
        Usage_exit \<Rightarrow> []
      | Scanned port configPath \<Rightarrow>
          [(exe, [mainPy h],
            \<lparr>cwd = pythonDir h, env = child_env h port configPath, stdio = ''inherit''\<rparr>)])"
  by (simp add: launch_def spawned_def split: scan.splits)

lemma spawned_launch_command:
  "(c, a, opts) \<in> set (spawned (launch h probes exe args)) \<Longrightarrow>
     spawned \<lparr>trace = probes, status = Running\<rparr> = [] \<Longrightarrow> c = exe"
  by (auto simp add: spawned_launch split: scan.splits)

text \<open>
  C2. Every launch checks the POSIX path \<open>.venv/bin/python\<close> first and the Windows path
  \<open>.venv/Scripts/python.exe\<close> second (and only when the first is missing); these checks
  open the run; a spawn uses the first path that exists; and when neither exists the
  run is two error lines, the second naming the provisioning step, and exit code 1,
  with no spawn.
\<close>

theorem interpreter_resolution:
  "fs_checks (webssh h args) =
     (if existsSync h (posix_python h) then [posix_python h]
      else [posix_python h, windows_python h]) \<and>
   take (length (fs_checks (webssh h args))) (trace (webssh h args)) =
     map Exists_sync (fs_checks (webssh h args)) \<and>
   (\<forall>c a opts. (c, a, opts) \<in> set (spawned (webssh h args)) \<longrightarrow>
      c = (if existsSync h (posix_python h) then posix_python h else windows_python h)) \<and>
   (\<not> existsSync h (posix_python h) \<and> \<not> existsSync h (windows_python h) \<longrightarrow>
      webssh h args =
        \<lparr>trace = [Exists_sync (posix_python h), Exists_sync (windows_python h),
                  Console_error ''Error: Python virtual environment not found.'',
                  Console_error ''Please run: npm run postinstall''],
         status = Exited 1\<rparr> \<and>
      spawned (webssh h args) = [])"
proof -
  have checks: "fs_checks (webssh h args) =
     (if existsSync h (posix_python h) then [posix_python h]
      else [posix_python h, windows_python h])"
    by (simp add: webssh_def Let_def fs_checks_launch) (simp add: fs_checks_def)
  have first: "take (length (fs_checks (webssh h args))) (trace (webssh h args)) =
     map Exists_sync (fs_checks (webssh h args))"
    unfolding checks
    by (simp add: webssh_def Let_def launch_def split: scan.splits)
  have cmd: "c = (if existsSync h (posix_python h) then posix_python h else windows_python h)"
    if "(c, a, opts) \<in> set (spawned (webssh h args))" for c a opts
  proof (cases "existsSync h (posix_python h)")
    case True
    with that have "(c, a, opts) \<in> set (spawned (launch h [Exists_sync (posix_python h)]
        (posix_python h) args))"
      by (simp add: webssh_def Let_def)
    then have "c = posix_python h"
      by (rule spawned_launch_command) (simp add: spawned_def)
    with True show ?thesis by simp
  next
    case False
    show ?thesis
    proof (cases "existsSync h (windows_python h)")
      case True
      with False that have "(c, a, opts) \<in> set (spawned (launch h
          [Exists_sync (posix_python h), Exists_sync (windows_python h)] (windows_python h) args))"
        by (simp add: webssh_def Let_def)
      then have "c = windows_python h"
        by (rule spawned_launch_command) (simp add: spawned_def)
      with False show ?thesis by simp
    next
      case neither: False
      with False that show ?thesis
        by (simp add: webssh_def Let_def spawned_def)
    qed
  qed
  have missing: "webssh h args =
        \<lparr>trace = [Exists_sync (posix_python h), Exists_sync (windows_python h),
                  Console_error ''Error: Python virtual environment not found.'',
                  Console_error ''Please run: npm run postinstall''],
         status = Exited 1\<rparr> \<and>
      spawned (webssh h args) = []"
    if "\<not> existsSync h (posix_python h)" "\<not> existsSync h (windows_python h)"
    using that by (simp add: webssh_def Let_def spawned_def)
  from checks first cmd missing show ?thesis
    by blast
qed

theorem interpreter_resolution_witness:
  "\<not> existsSync bare_host (posix_python bare_host) \<and>
   \<not> existsSync bare_host (windows_python bare_host) \<and>
   fs_checks (webssh bare_host [''-p'', ''9000'', ''-c'', ''/tmp/cfg.json'']) =
     [''/opt/webssh/python/.venv/bin/python'', ''/opt/webssh/python/.venv/Scripts/python.exe''] \<and>
   webssh bare_host [''-p'', ''9000'', ''-c'', ''/tmp/cfg.json''] =
     \<lparr>trace = [Exists_sync ''/opt/webssh/python/.venv/bin/python'',
               Exists_sync ''/opt/webssh/python/.venv/Scripts/python.exe'',
               Console_error ''Error: Python virtual environment not found.'',
               Console_error ''Please run: npm run postinstall''],
      status = Exited 1\<rparr> \<and>
   spawned (webssh bare_host [''-p'', ''9000'', ''-c'', ''/tmp/cfg.json'']) = [] \<and>
   existsSync provisioned_host (posix_python provisioned_host) \<and>
   fs_checks (webssh provisioned_host [''-p'', ''9000'']) =
     [''/opt/webssh/python/.venv/bin/python''] \<and>
   map fst (spawned (webssh provisioned_host [''-p'', ''9000''])) =
     [''/opt/webssh/python/.venv/bin/python'']"
proof -
  have none: "\<not> existsSync bare_host (posix_python bare_host)"
    "\<not> existsSync bare_host (windows_python bare_host)"
    by (simp_all add: example_defs)
  have some: "existsSync provisioned_host (posix_python provisioned_host)"
    by (simp add: example_defs)
  have paths: "posix_python bare_host = ''/opt/webssh/python/.venv/bin/python''"
    "windows_python bare_host = ''/opt/webssh/python/.venv/Scripts/python.exe''"
    "posix_python provisioned_host = ''/opt/webssh/python/.venv/bin/python''"
    by (simp_all add: example_defs)
  note bare = interpreter_resolution [of bare_host "[''-p'', ''9000'', ''-c'', ''/tmp/cfg.json'']"]
  note prov = interpreter_resolution [of provisioned_host "[''-p'', ''9000'']"]
  from bare [THEN conjunct1] none have a:
    "fs_checks (webssh bare_host [''-p'', ''9000'', ''-c'', ''/tmp/cfg.json'']) =
       [''/opt/webssh/python/.venv/bin/python'', ''/opt/webssh/python/.venv/Scripts/python.exe'']"
    by (simp add: paths)
  from bare [THEN conjunct2, THEN conjunct2, THEN conjunct2] none
  have bc: "webssh bare_host [''-p'', ''9000'', ''-c'', ''/tmp/cfg.json''] =
     \<lparr>trace = [Exists_sync (posix_python bare_host), Exists_sync (windows_python bare_host),
               Console_error ''Error: Python virtual environment not found.'',
               Console_error ''Please run: npm run postinstall''],
      status = Exited 1\<rparr> \<and>
     spawned (webssh bare_host [''-p'', ''9000'', ''-c'', ''/tmp/cfg.json'']) = []"
    by blast
  from bc [THEN conjunct1] have b: "webssh bare_host [''-p'', ''9000'', ''-c'', ''/tmp/cfg.json''] =
     \<lparr>trace = [Exists_sync ''/opt/webssh/python/.venv/bin/python'',
               Exists_sync ''/opt/webssh/python/.venv/Scripts/python.exe'',
               Console_error ''Error: Python virtual environment not found.'',
               Console_error ''Please run: npm run postinstall''],
      status = Exited 1\<rparr>"
    by (simp only: paths)
  note c = bc [THEN conjunct2]
  from prov [THEN conjunct1] some have d: "fs_checks (webssh provisioned_host [''-p'', ''9000'']) =
     [''/opt/webssh/python/.venv/bin/python'']"
    by (simp add: paths)
  have len: "length (spawned (webssh provisioned_host [''-p'', ''9000''])) = 1"
    by (simp add: webssh_def Let_def launch_def spawned_def example_defs eval_defs)
  from len obtain x where sp: "spawned (webssh provisioned_host [''-p'', ''9000'']) = [x]"
    by (auto simp add: length_Suc_conv)
  obtain c' a' opts' where x: "x = (c', a', opts')"
    by (cases x)
  from prov [THEN conjunct2, THEN conjunct2, THEN conjunct1] some sp x
  have "c' = ''/opt/webssh/python/.venv/bin/python''"
    by (simp add: paths)
  with sp x have e: "map fst (spawned (webssh provisioned_host [''-p'', ''9000''])) =
     [''/opt/webssh/python/.venv/bin/python'']"
    by simp
  from none some a b c d e show ?thesis
    by blast
qed

subsection \<open>The argument loop\<close>

lemma parse_args_scan:
  "parse_args args port configPath =
     (if help_reached args then Usage_exit
      else Scanned
        (if port_operands args = [] then port
         else parseInt (ToString (last (port_operands args))))
        (if config_operands args = [] then configPath else last (config_operands args)))"
proof (induction args port configPath rule: parse_args.induct)
  case (1 port configPath)
  show ?case by (simp add: help_reached_def)
next
  case (2 a rest port configPath)
  consider (port_opt) "a = ''-p'' \<or> a = ''--port''"
    | (config_opt) "a = ''-c'' \<or> a = ''--config''"
    | (help_opt) "a = ''-h'' \<or> a = ''--help''"
    | (other) "\<not> (a = ''-p'' \<or> a = ''--port'')" "\<not> (a = ''-c'' \<or> a = ''--config'')"
        "\<not> (a = ''-h'' \<or> a = ''--help'')"
    by blast
  then show ?case
  proof cases
    case port_opt
    then have h: "help_reached (a # rest) = help_reached (tl rest)"
      by (auto simp add: help_reached_def)
    from port_opt "2.IH"(1) show ?thesis
      unfolding h by auto
  next
    case config_opt
    then have np: "\<not> (a = ''-p'' \<or> a = ''--port'')"
      by auto
    from config_opt have h: "help_reached (a # rest) = help_reached (tl rest)"
      by (auto simp add: help_reached_def)
    from config_opt np "2.IH"(2) show ?thesis
      unfolding h by auto
  next
    case help_opt
    then show ?thesis
      by (auto simp add: help_reached_def)
  next
    case other
    then have h: "help_reached (a # rest) = help_reached rest"
      by (auto simp add: help_reached_def)
    from other "2.IH"(3) show ?thesis
      unfolding h by auto
  qed
qed

lemma parse_args_initial:
  "parse_args args (Finite 8765) None =
     (if help_reached args then Usage_exit else Scanned (final_port args) (final_config args))"
  by (simp add: parse_args_scan final_port_def final_config_def)

lemma webssh_help:
  "existsSync h (posix_python h) \<or> existsSync h (windows_python h) \<Longrightarrow> help_reached args \<Longrightarrow>
     webssh h args =
       \<lparr>trace = map Exists_sync
           (if existsSync h (posix_python h) then [posix_python h]
            else [posix_python h, windows_python h]) @ [Console_log usage_text],
        status = Exited 0\<rparr>"
  by (auto simp add: webssh_def Let_def launch_def parse_args_initial)

lemma webssh_spawn:
  "existsSync h (posix_python h) \<or> existsSync h (windows_python h) \<Longrightarrow> \<not> help_reached args \<Longrightarrow>
     webssh h args =
       \<lparr>trace = map Exists_sync
           (if existsSync h (posix_python h) then [posix_python h]
            else [posix_python h, windows_python h]) @
          [Console_log (''Starting WebSSH on port ''
             @ toString (beyond_toString h) (final_port args) @ ''...''),
           Console_log (''Open http://localhost:''
             @ toString (beyond_toString h) (final_port args) @ ''/ in your browser''),
           Spawn (if existsSync h (posix_python h) then posix_python h else windows_python h)
             [mainPy h]
             \<lparr>cwd = pythonDir h, env = child_env h (final_port args) (final_config args),
              stdio = ''inherit''\<rparr>],
        status = Running\<rparr>"
  by (auto simp add: webssh_def Let_def launch_def parse_args_initial)

lemma webssh_running_iff:
  "status (webssh h args) = Running \<longleftrightarrow>
     (existsSync h (posix_python h) \<or> existsSync h (windows_python h)) \<and> \<not> help_reached args"
  by (auto simp add: webssh_def Let_def launch_def parse_args_initial)

lemma spawned_webssh:
  "status (webssh h args) = Running \<Longrightarrow>
     spawned (webssh h args) =
       [(if existsSync h (posix_python h) then posix_python h else windows_python h,
         [mainPy h],
         \<lparr>cwd = pythonDir h, env = child_env h (final_port args) (final_config args),
          stdio = ''inherit''\<rparr>)]"
  by (auto simp add: webssh_running_iff webssh_spawn spawned_def)

text \<open>
  C3, the claim as stated fails. A \<open>-h\<close> that stands as the operand of \<open>-c\<close> is not
  read as an option: operands are taken as they come, and the backend is spawned with
  \<open>WEBSSH_CONFIG\<close> set to \<open>-h\<close>. And on a host with no provisioned interpreter
  \<open>--help\<close> gives the two error lines and exit code 1 and no usage text, because the
  interpreter check stands before the argument loop, although the usage text offers
  \<open>--help\<close> without condition.
\<close>

theorem help_not_always_honoured:
  "''--help'' \<in> set [''--help''] \<and>
   webssh bare_host [''--help''] =
     \<lparr>trace = [Exists_sync ''/opt/webssh/python/.venv/bin/python'',
               Exists_sync ''/opt/webssh/python/.venv/Scripts/python.exe'',
               Console_error ''Error: Python virtual environment not found.'',
               Console_error ''Please run: npm run postinstall''],
      status = Exited 1\<rparr> \<and>
   ''-h'' \<in> set [''-c'', ''-h''] \<and>
   status (webssh provisioned_host [''-c'', ''-h'']) = Running \<and>
   spawned_env (webssh provisioned_host [''-c'', ''-h'']) ''WEBSSH_CONFIG'' = [Some ''-h'']"
  by (simp add: webssh_def Let_def launch_def spawned_env_def spawned_def example_defs eval_defs)

text \<open>
  C3, amended. When the argument loop reaches a \<open>-h\<close> or \<open>--help\<close> (one that is not the
  operand of a preceding port or config option), the loop ends there: the usage text is
  printed and the process exits with code 0. From the loop on the run adds the usage
  text and nothing else, so a launcher that has found its interpreter runs no
  provisioning command and spawns nothing.
\<close>

theorem help_prints_usage_and_exits_0:
  "help_reached args \<Longrightarrow>
     parse_args args port configPath = Usage_exit \<and>
     launch h checks exe args =
       \<lparr>trace = checks @ [Console_log usage_text], status = Exited 0\<rparr> \<and>
     (existsSync h (posix_python h) \<or> existsSync h (windows_python h) \<longrightarrow>
        webssh h args =
          \<lparr>trace = map Exists_sync
              (if existsSync h (posix_python h) then [posix_python h]
               else [posix_python h, windows_python h]) @ [Console_log usage_text],
           status = Exited 0\<rparr> \<and>
        spawned (webssh h args) = [])"
proof -
  assume reached: "help_reached args"
  have loop: "parse_args args port configPath = Usage_exit"
    using reached by (simp add: parse_args_scan)
  have from_loop: "launch h checks exe args =
       \<lparr>trace = checks @ [Console_log usage_text], status = Exited 0\<rparr>"
    using reached by (simp add: launch_def parse_args_initial)
  have whole: "webssh h args =
          \<lparr>trace = map Exists_sync
              (if existsSync h (posix_python h) then [posix_python h]
               else [posix_python h, windows_python h]) @ [Console_log usage_text],
           status = Exited 0\<rparr> \<and>
        spawned (webssh h args) = []"
    if found: "existsSync h (posix_python h) \<or> existsSync h (windows_python h)"
  proof -
    have "webssh h args =
          \<lparr>trace = map Exists_sync
              (if existsSync h (posix_python h) then [posix_python h]
               else [posix_python h, windows_python h]) @ [Console_log usage_text],
           status = Exited 0\<rparr>"
      using found reached by (rule webssh_help)
    then show ?thesis
      by (simp add: spawned_def)
  qed
  show ?thesis
    apply (rule conjI, rule loop)
    apply (rule conjI, rule from_loop)
    apply (rule impI, erule whole)
    done
qed

theorem help_prints_usage_and_exits_0_witness:
  "existsSync provisioned_host (posix_python provisioned_host) \<and>
   help_reached [''-p'', ''8080'', ''--help'', ''-c''] \<and>
   webssh provisioned_host [''-p'', ''8080'', ''--help'', ''-c''] =
     \<lparr>trace = [Exists_sync ''/opt/webssh/python/.venv/bin/python'', Console_log usage_text],
      status = Exited 0\<rparr> \<and>
   spawned (webssh provisioned_host [''-p'', ''8080'', ''--help'', ''-c'']) = []"
proof -
  have e: "existsSync provisioned_host (posix_python provisioned_host)"
    by (simp add: example_defs)
  have p: "posix_python provisioned_host = ''/opt/webssh/python/.venv/bin/python''"
    by (simp add: example_defs)
  have r: "help_reached [''-p'', ''8080'', ''--help'', ''-c'']"
    by (simp add: help_reached_def)
  note w = help_prints_usage_and_exits_0 [where h = provisioned_host, OF r,
      THEN conjunct2, THEN conjunct2, THEN mp, OF disjI1, OF e]
  from w [THEN conjunct1] e
  have "webssh provisioned_host [''-p'', ''8080'', ''--help'', ''-c''] =
     \<lparr>trace = [Exists_sync ''/opt/webssh/python/.venv/bin/python'', Console_log usage_text],
      status = Exited 0\<rparr>"
    by (simp add: p)
  with e r w [THEN conjunct2] show ?thesis
    by blast
qed

subsection \<open>Decimal strings read back\<close>

lemma digit_char_props:
  "d < 10 \<Longrightarrow> is_digit (digit_char d) \<and> digit_value (digit_char d) = int d \<and>
     \<not> is_white_space (digit_char d) \<and> digit_char d \<noteq> CHR ''-'' \<and> digit_char d \<noteq> CHR ''+''"
proof -
  assume "d < 10"
  then have "d = 0 \<or> d = 1 \<or> d = 2 \<or> d = 3 \<or> d = 4 \<or> d = 5 \<or> d = 6 \<or> d = 7 \<or>
      d = 8 \<or> d = 9"
    by arith
  then show ?thesis
    by (elim disjE)
      (simp_all add: digit_char_def is_digit_def digit_value_def is_white_space_def)
qed

lemma digits_not_Nil: "digits n \<noteq> []"
  by (subst digits.simps) simp

lemma digits_all_digits: "c \<in> set (digits n) \<Longrightarrow> is_digit c"
proof (induction n arbitrary: c rule: digits.induct)
  case (1 n)
  show ?case
  proof (cases "n < 10")
    case True
    with "1.prems" show ?thesis
      by (subst (asm) digits.simps) (simp add: digit_char_props)
  next
    case False
    with "1.prems" have "c \<in> set (digits (n div 10)) \<or> c = digit_char (n mod 10)"
      by (subst (asm) digits.simps) auto
    with False "1.IH" show ?thesis
      by (auto simp add: digit_char_props)
  qed
qed

lemma hd_digits: "\<exists>d < 10. hd (digits n) = digit_char d"
proof (induction n rule: digits.induct)
  case (1 n)
  show ?case
  proof (cases "n < 10")
    case True
    then have "hd (digits n) = digit_char n"
      by (subst digits.simps) simp
    with True show ?thesis by blast
  next
    case False
    then have "hd (digits n) = hd (digits (n div 10))"
      by (subst digits.simps) (simp add: digits_not_Nil)
    with False "1.IH" show ?thesis by simp
  qed
qed

lemma digits_value: "foldl (\<lambda>acc c. 10 * acc + digit_value c) 0 (digits n) = int n"
proof (induction n rule: digits.induct)
  case (1 n)
  show ?case
  proof (cases "n < 10")
    case True
    then show ?thesis
      by (subst digits.simps) (simp add: digit_char_props)
  next
    case False
    have "foldl (\<lambda>acc c. 10 * acc + digit_value c) 0 (digits n) =
        10 * foldl (\<lambda>acc c. 10 * acc + digit_value c) 0 (digits (n div 10)) +
        digit_value (digit_char (n mod 10))"
      using False by (subst digits.simps) simp
    also have "\<dots> = 10 * int (n div 10) + int (n mod 10)"
      using False "1.IH" by (simp add: digit_char_props)
    also have "\<dots> = int n"
      by (simp add: zdiv_int zmod_int)
    finally show ?thesis .
  qed
qed

lemma parseInt_digits: "int n \<le> 2 ^ 53 \<Longrightarrow> parseInt (digits n) = Finite (int n)"
proof -
  assume bound: "int n \<le> 2 ^ 53"
  obtain d where d: "d < 10" "hd (digits n) = digit_char d"
    using hd_digits by blast
  have hd: "\<not> is_white_space (hd (digits n))" "hd (digits n) \<noteq> CHR ''-''"
    "hd (digits n) \<noteq> CHR ''+''"
    using d digit_char_props by simp_all
  have drop: "dropWhile is_white_space (digits n) = digits n"
    using hd digits_not_Nil by (cases "digits n") simp_all
  have take: "takeWhile is_digit (digits n) = digits n"
    by (simp add: digits_all_digits)
  show ?thesis
    using bound hd by (simp add: parseInt_def drop take digits_not_Nil digits_value)
qed

lemma parseInt_minus_digits:
  "int n \<le> 2 ^ 53 \<Longrightarrow> parseInt (''-'' @ digits n) = Finite (- int n)"
proof -
  assume bound: "int n \<le> 2 ^ 53"
  have take: "takeWhile is_digit (digits n) = digits n"
    by (simp add: digits_all_digits)
  show ?thesis
    using bound
    by (simp add: parseInt_def is_white_space_def take digits_not_Nil digits_value)
qed

lemma parseInt_decimal: "\<bar>n\<bar> \<le> 2 ^ 53 \<Longrightarrow> parseInt (decimal n) = Finite n"
proof (cases "n < 0")
  case True
  assume "\<bar>n\<bar> \<le> 2 ^ 53"
  with True have "int (nat (- n)) \<le> 2 ^ 53" by simp
  from parseInt_minus_digits [OF this] True show ?thesis
    by (simp add: decimal_def)
next
  case False
  assume "\<bar>n\<bar> \<le> 2 ^ 53"
  with False have "int (nat n) \<le> 2 ^ 53" by simp
  from parseInt_digits [OF this] False show ?thesis
    by (simp add: decimal_def)
qed

lemma Finite_bound:
  "(if A then NaN else if \<bar>m\<bar> \<le> b then Finite m else Beyond m) = Finite n \<Longrightarrow> \<bar>n\<bar> \<le> b"
  by (auto split: if_splits)

lemma parseInt_Finite_bound: "parseInt s = Finite n \<Longrightarrow> \<bar>n\<bar> \<le> 2 ^ 53"
  unfolding parseInt_def Let_def by (rule Finite_bound)

lemma final_port_Finite_bound: "final_port args = Finite n \<Longrightarrow> \<bar>n\<bar> \<le> 2 ^ 53"
  by (auto simp add: final_port_def dest: parseInt_Finite_bound split: if_splits)

subsection \<open>The environment of the child\<close>

lemma child_env_port:
  "child_env h port configPath ''WEBSSH_PORT'' =
     (if differs_from_8765 port then Some (toString (beyond_toString h) port)
      else process_env h ''WEBSSH_PORT'')"
  by (simp add: child_env_def Let_def split: option.splits)

lemma child_env_config:
  "child_env h port configPath ''WEBSSH_CONFIG'' =
     (if truthy configPath then configPath else process_env h ''WEBSSH_CONFIG'')"
  by (simp add: child_env_def Let_def truthy_def split: option.splits)

lemma child_env_other:
  "k \<noteq> ''WEBSSH_PORT'' \<Longrightarrow> k \<noteq> ''WEBSSH_CONFIG'' \<Longrightarrow>
     child_env h port configPath k = process_env h k"
  by (simp add: child_env_def Let_def split: option.splits)

text \<open>
  C1, the claim as stated fails: the child environment starts as a copy of the
  launcher's own, so with the default port a \<open>WEBSSH_PORT\<close> exported by the calling shell
  is present in it; and an empty config path given with \<open>-c\<close> is not exported.
\<close>

theorem default_port_variable_can_be_present:
  "parse_args [] (Finite 8765) None = Scanned (Finite 8765) None \<and>
   status (webssh exporting_host []) = Running \<and>
   spawned_env (webssh exporting_host []) ''WEBSSH_PORT'' = [Some ''9000''] \<and>
   parse_args [''-c'', ''''] (Finite 8765) None = Scanned (Finite 8765) (Some '''') \<and>
   status (webssh provisioned_host [''-c'', '''']) = Running \<and>
   spawned_env (webssh provisioned_host [''-c'', '''']) ''WEBSSH_CONFIG'' = [None]"
  by (simp add: webssh_def Let_def launch_def spawned_env_def spawned_def example_defs eval_defs)

text \<open>
  C1, amended. In every invocation that reaches the spawn step the child environment is
  the launcher's own environment with at most two variables set. \<open>WEBSSH_PORT\<close> is set
  if and only if the parsed port (that of the last port option, 8765 without one)
  differs from 8765, to the string form of the port, which for an integer of magnitude
  up to \<open>2^53\<close> is its decimal form (read back by \<open>parseInt\<close> it is that integer).
  \<open>WEBSSH_CONFIG\<close> is set if and only if the last config option has a non-empty
  operand, to that operand. A variable the launcher does not set keeps the value it has
  in the launcher's environment: it is absent when it is absent there.
\<close>

theorem child_environment:
  "status (webssh h args) = Running \<Longrightarrow>
     \<exists>exe E.
       parse_args args (Finite 8765) None = Scanned (final_port args) (final_config args) \<and>
       spawned (webssh h args) =
         [(exe, [mainPy h], \<lparr>cwd = pythonDir h, env = E, stdio = ''inherit''\<rparr>)] \<and>
       E ''WEBSSH_PORT'' =
         (if differs_from_8765 (final_port args)
          then Some (toString (beyond_toString h) (final_port args))
          else process_env h ''WEBSSH_PORT'') \<and>
       E ''WEBSSH_CONFIG'' =
         (if truthy (final_config args) then final_config args
          else process_env h ''WEBSSH_CONFIG'') \<and>
       (\<forall>k. k \<noteq> ''WEBSSH_PORT'' \<and> k \<noteq> ''WEBSSH_CONFIG'' \<longrightarrow> E k = process_env h k) \<and>
       (\<forall>n. final_port args = Finite n \<longrightarrow>
          toString (beyond_toString h) (final_port args) = decimal n \<and>
          parseInt (decimal n) = Finite n)"
proof -
  assume run: "status (webssh h args) = Running"
  then have nohelp: "\<not> help_reached args"
    by (simp add: webssh_running_iff)
  then have scan: "parse_args args (Finite 8765) None =
      Scanned (final_port args) (final_config args)"
    by (simp add: parse_args_initial)
  have dec: "toString (beyond_toString h) (final_port args) = decimal n \<and>
      parseInt (decimal n) = Finite n" if "final_port args = Finite n" for n
    using that final_port_Finite_bound [OF that] by (simp add: toString_def parseInt_decimal)
  let ?exe = "if existsSync h (posix_python h) then posix_python h else windows_python h"
  let ?E = "child_env h (final_port args) (final_config args)"
  have sp: "spawned (webssh h args) =
      [(?exe, [mainPy h], \<lparr>cwd = pythonDir h, env = ?E, stdio = ''inherit''\<rparr>)]"
    using run by (rule spawned_webssh)
  have other: "\<forall>k. k \<noteq> ''WEBSSH_PORT'' \<and> k \<noteq> ''WEBSSH_CONFIG'' \<longrightarrow> ?E k = process_env h k"
    by (simp add: child_env_other)
  have dec': "\<forall>n. final_port args = Finite n \<longrightarrow>
          toString (beyond_toString h) (final_port args) = decimal n \<and>
          parseInt (decimal n) = Finite n"
    using dec by blast
  show ?thesis
    apply (rule exI [of _ ?exe])
    apply (rule exI [of _ ?E])
    apply (rule conjI, rule scan)
    apply (rule conjI, rule sp)
    apply (rule conjI, rule child_env_port)
    apply (rule conjI, rule child_env_config)
    apply (rule conjI, rule other)
    apply (rule dec')
    done
qed

theorem child_environment_witness:
  "status (webssh provisioned_host [''-p'', ''9000'', ''-c'', ''/tmp/cfg.json'']) = Running \<and>
   spawned_env (webssh provisioned_host [''-p'', ''9000'', ''-c'', ''/tmp/cfg.json''])
     ''WEBSSH_PORT'' = [Some ''9000''] \<and>
   spawned_env (webssh provisioned_host [''-p'', ''9000'', ''-c'', ''/tmp/cfg.json''])
     ''WEBSSH_CONFIG'' = [Some ''/tmp/cfg.json''] \<and>
   spawned_env (webssh provisioned_host [''-p'', ''9000'', ''-c'', ''/tmp/cfg.json''])
     ''HOME'' = [Some ''/root''] \<and>
   parseInt (decimal 9000) = Finite 9000"
proof -
  let ?args = "[''-p'', ''9000'', ''-c'', ''/tmp/cfg.json'']"
  have run: "status (webssh provisioned_host ?args) = Running"
    by (simp add: webssh_running_iff help_reached_def example_defs)
  have port: "final_port ?args = Finite 9000"
    by (simp add: final_port_def eval_defs)
  have config: "final_config ?args = Some ''/tmp/cfg.json''"
    by (simp add: final_config_def operand_def)
  have penv: "process_env provisioned_host ''HOME'' = Some ''/root''"
    by (simp add: provisioned_host_def)
  from child_environment [OF run] obtain exe E where
    w: "parse_args ?args (Finite 8765) None = Scanned (final_port ?args) (final_config ?args) \<and>
      spawned (webssh provisioned_host ?args) =
      [(exe, [mainPy provisioned_host],
        \<lparr>cwd = pythonDir provisioned_host, env = E, stdio = ''inherit''\<rparr>)] \<and>
     E ''WEBSSH_PORT'' =
         (if differs_from_8765 (final_port ?args)
          then Some (toString (beyond_toString provisioned_host) (final_port ?args))
          else process_env provisioned_host ''WEBSSH_PORT'') \<and>
     E ''WEBSSH_CONFIG'' =
         (if truthy (final_config ?args) then final_config ?args
          else process_env provisioned_host ''WEBSSH_CONFIG'') \<and>
     (\<forall>k. k \<noteq> ''WEBSSH_PORT'' \<and> k \<noteq> ''WEBSSH_CONFIG'' \<longrightarrow>
          E k = process_env provisioned_host k) \<and>
     (\<forall>n. final_port ?args = Finite n \<longrightarrow>
          toString (beyond_toString provisioned_host) (final_port ?args) = decimal n \<and>
          parseInt (decimal n) = Finite n)"
    by (elim exE) (rule that)
  note sp = w [THEN conjunct2, THEN conjunct1]
  note p = w [THEN conjunct2, THEN conjunct2, THEN conjunct1]
  note c = w [THEN conjunct2, THEN conjunct2, THEN conjunct2, THEN conjunct1]
  note k = w [THEN conjunct2, THEN conjunct2, THEN conjunct2, THEN conjunct2, THEN conjunct1]
  note d = w [THEN conjunct2, THEN conjunct2, THEN conjunct2, THEN conjunct2, THEN conjunct2]
  from p port have p': "E ''WEBSSH_PORT'' = Some ''9000''"
    by (simp add: eval_defs)
  from c config have c': "E ''WEBSSH_CONFIG'' = Some ''/tmp/cfg.json''"
    by (simp add: truthy_def)
  from k penv have k': "E ''HOME'' = Some ''/root''"
    by simp
  note d' = d [rule_format, OF port, THEN conjunct2]
  from sp p' have port_var:
    "spawned_env (webssh provisioned_host ?args) ''WEBSSH_PORT'' = [Some ''9000'']"
    by (simp add: spawned_env_def)
  from sp c' have config_var:
    "spawned_env (webssh provisioned_host ?args) ''WEBSSH_CONFIG'' = [Some ''/tmp/cfg.json'']"
    by (simp add: spawned_env_def)
  from sp k' have home_var:
    "spawned_env (webssh provisioned_host ?args) ''HOME'' = [Some ''/root'']"
    by (simp add: spawned_env_def)
  show ?thesis
    by (intro conjI) (rule run port_var config_var home_var d')+
qed

text \<open>
  C9, the claim as stated fails: after a port operand that does not parse, a help
  option still ends the run with the usage text and no spawn, and a later port option
  replaces the \<open>NaN\<close>.
\<close>

theorem unparsable_port_not_always_exported:
  "parseInt (ToString (operand [''abc'', ''--help''])) = NaN \<and>
   webssh provisioned_host [''-p'', ''abc'', ''--help''] =
     \<lparr>trace = [Exists_sync ''/opt/webssh/python/.venv/bin/python'', Console_log usage_text],
      status = Exited 0\<rparr> \<and>
   parseInt (ToString (operand [''abc'', ''-p'', ''9000''])) = NaN \<and>
   spawned_env (webssh provisioned_host [''-p'', ''abc'', ''-p'', ''9000'']) ''WEBSSH_PORT'' =
     [Some ''9000'']"
  by (simp add: webssh_def Let_def launch_def spawned_env_def spawned_def example_defs eval_defs)

text \<open>
  C9, amended. The argument loop rejects nothing: whenever a provisioned interpreter
  exists and the loop reaches no help option, the backend is spawned, once, with that
  interpreter. If in addition the operand of the last port option (a missing operand
  included) gives \<open>NaN\<close> under \<open>parseInt\<close>, the parsed port is \<open>NaN\<close> and the
  environment of that spawn has \<open>WEBSSH_PORT\<close> set to the string \<open>NaN\<close>.
\<close>

theorem unparsable_port_exported_as_NaN:
  "(existsSync h (posix_python h) \<or> existsSync h (windows_python h)) \<and> \<not> help_reached args \<Longrightarrow>
     status (webssh h args) = Running \<and>
     (\<exists>E. spawned (webssh h args) =
            [(if existsSync h (posix_python h) then posix_python h else windows_python h,
              [mainPy h], \<lparr>cwd = pythonDir h, env = E, stdio = ''inherit''\<rparr>)] \<and>
          (port_operands args \<noteq> [] \<and>
           parseInt (ToString (last (port_operands args))) = NaN \<longrightarrow>
             parse_args args (Finite 8765) None = Scanned NaN (final_config args) \<and>
             E ''WEBSSH_PORT'' = Some ''NaN''))"
proof -
  assume a: "(existsSync h (posix_python h) \<or> existsSync h (windows_python h)) \<and>
    \<not> help_reached args"
  then have run: "status (webssh h args) = Running"
    by (simp add: webssh_running_iff)
  let ?E = "child_env h (final_port args) (final_config args)"
  have sp: "spawned (webssh h args) =
      [(if existsSync h (posix_python h) then posix_python h else windows_python h,
        [mainPy h], \<lparr>cwd = pythonDir h, env = ?E, stdio = ''inherit''\<rparr>)]"
    using run by (rule spawned_webssh)
  have nan: "parse_args args (Finite 8765) None = Scanned NaN (final_config args) \<and>
      ?E ''WEBSSH_PORT'' = Some ''NaN''"
    if "port_operands args \<noteq> [] \<and> parseInt (ToString (last (port_operands args))) = NaN"
  proof -
    from that have port: "final_port args = NaN"
      by (simp add: final_port_def)
    with a have "parse_args args (Finite 8765) None = Scanned NaN (final_config args)"
      by (simp add: parse_args_initial)
    moreover have "child_env h NaN (final_config args) ''WEBSSH_PORT'' = Some ''NaN''"
      by (simp add: child_env_port differs_from_8765_def toString_def)
    ultimately show ?thesis
      using port by simp
  qed
  show ?thesis
    apply (rule conjI, rule run)
    apply (rule exI [of _ ?E])
    apply (rule conjI, rule sp)
    apply (rule impI, erule nan)
    done
qed

theorem unparsable_port_exported_as_NaN_witness:
  "existsSync provisioned_host (posix_python provisioned_host) \<and>
   \<not> help_reached [''-c'', ''cfg.json'', ''--port'', ''abc''] \<and>
   port_operands [''-c'', ''cfg.json'', ''--port'', ''abc''] = [Some ''abc''] \<and>
   parseInt ''abc'' = NaN \<and>
   status (webssh provisioned_host [''-c'', ''cfg.json'', ''--port'', ''abc'']) = Running \<and>
   map fst (spawned (webssh provisioned_host [''-c'', ''cfg.json'', ''--port'', ''abc''])) =
     [''/opt/webssh/python/.venv/bin/python''] \<and>
   spawned_env (webssh provisioned_host [''-c'', ''cfg.json'', ''--port'', ''abc''])
     ''WEBSSH_PORT'' = [Some ''NaN'']"
proof -
  let ?args = "[''-c'', ''cfg.json'', ''--port'', ''abc'']"
  have e: "existsSync provisioned_host (posix_python provisioned_host)"
    by (simp add: example_defs)
  have p: "posix_python provisioned_host = ''/opt/webssh/python/.venv/bin/python''"
    by (simp add: example_defs)
  have nh: "\<not> help_reached ?args"
    by (simp add: help_reached_def)
  have po: "port_operands ?args = [Some ''abc'']"
    by (simp add: operand_def)
  have pi: "parseInt ''abc'' = NaN"
    by (simp add: eval_defs)
  from po pi have last: "port_operands ?args \<noteq> [] \<and>
      parseInt (ToString (last (port_operands ?args))) = NaN"
    by (simp add: ToString_def)
  note w = unparsable_port_exported_as_NaN [of provisioned_host ?args, OF conjI, OF disjI1,
      OF e nh]
  note run = w [THEN conjunct1]
  from w [THEN conjunct2] obtain E where
    sp: "spawned (webssh provisioned_host ?args) =
       [(if existsSync provisioned_host (posix_python provisioned_host)
         then posix_python provisioned_host else windows_python provisioned_host,
         [mainPy provisioned_host],
         \<lparr>cwd = pythonDir provisioned_host, env = E, stdio = ''inherit''\<rparr>)]"
    and v: "port_operands ?args \<noteq> [] \<and>
           parseInt (ToString (last (port_operands ?args))) = NaN \<longrightarrow>
             parse_args ?args (Finite 8765) None = Scanned NaN (final_config ?args) \<and>
             E ''WEBSSH_PORT'' = Some ''NaN''"
    by (elim exE conjE) (rule that)
  from v last have nan: "E ''WEBSSH_PORT'' = Some ''NaN''"
    by (rule mp [THEN conjunct2])
  from sp e have cmd: "map fst (spawned (webssh provisioned_host ?args)) =
      [''/opt/webssh/python/.venv/bin/python'']"
    by (simp add: p)
  from sp nan have var: "spawned_env (webssh provisioned_host ?args) ''WEBSSH_PORT'' =
      [Some ''NaN'']"
    by (simp add: spawned_env_def)
  show ?thesis
    by (intro conjI) (rule e nh po pi run cmd var)+
qed

section \<open>Provisioning\<close>

lemma str_includes_iff: "str_includes s t \<longleftrightarrow> (\<exists>p q. s = p @ t @ q)"
proof (induction s)
  case Nil
  show ?case by auto
next
  case (Cons c cs)
  show ?case
  proof
    assume "str_includes (c # cs) t"
    then consider "take (length t) (c # cs) = t" | "str_includes cs t"
      by auto
    then show "\<exists>p q. c # cs = p @ t @ q"
    proof cases
      case 1
      then have "c # cs = [] @ t @ drop (length t) (c # cs)"
        by (metis append_Nil append_take_drop_id)
      then show ?thesis by blast
    next
      case 2
      with Cons.IH obtain p q where "cs = p @ t @ q" by blast
      then have "c # cs = (c # p) @ t @ q" by simp
      then show ?thesis by blast
    qed
  next
    assume "\<exists>p q. c # cs = p @ t @ q"
    then obtain p q where pq: "c # cs = p @ t @ q" by blast
    show "str_includes (c # cs) t"
    proof (cases p)
      case Nil
      with pq have "take (length t) (c # cs) = t" by simp
      then show ?thesis by simp
    next
      case (Cons c' p')
      with pq have "cs = p' @ t @ q" by simp
      with Cons.IH have "str_includes cs t" by blast
      then show ?thesis by simp
    qed
  qed
qed

lemma probe_ok_iff:
  "probe_ok r \<longleftrightarrow> (\<exists>out p q. r = Returns (Some 0) (Some out) \<and> out = p @ ''Python 3'' @ q)"
  by (cases r) (auto simp add: probe_ok_def str_includes_iff split: option.splits)

lemma findPython_loop_find:
  "snd (findPython_loop h cmds) = find (\<lambda>cmd. probe_ok (spawnSync h cmd [''--version''])) cmds"
  by (induction cmds) simp_all

lemma findPython_loop_probes:
  "fst (findPython_loop h cmds) =
     map (\<lambda>cmd. Spawn_sync cmd [''--version''])
       (takeWhile (\<lambda>cmd. \<not> probe_ok (spawnSync h cmd [''--version''])) cmds @
        take 1 (dropWhile (\<lambda>cmd. \<not> probe_ok (spawnSync h cmd [''--version''])) cmds))"
  by (induction cmds) simp_all

lemma postinstall_no_python:
  "snd (findPython h) = None \<Longrightarrow>
     postinstall h =
       \<lparr>trace = [Console_log ''Setting up WebSSH Python environment...'',
                 Spawn_sync ''python3'' [''--version''], Spawn_sync ''python'' [''--version''],
                 Console_error ''Error: Python 3 is required but not found.'',
                 Console_error ''Please install Python 3.10 or later.''],
        status = Exited 1\<rparr>"
  by (simp add: postinstall_def findPython_def pythonCommands_def split: if_splits)

text \<open>
  C6. \<open>findPython\<close> probes \<open>python3\<close> and then \<open>python\<close> with \<open>--version\<close>, stops at
  the first candidate whose probe returns status 0 with \<open>Python 3\<close> in its output, and
  selects that candidate; later candidates are not probed. When neither qualifies the
  run is the two probes, two error lines (Python 3 is required; install Python 3.10 or
  later) and exit code 1.
\<close>

theorem runtime_detection:
  "snd (findPython h) =
     find (\<lambda>cmd. probe_ok (spawnSync h cmd [''--version''])) [''python3'', ''python''] \<and>
   fst (findPython h) =
     map (\<lambda>cmd. Spawn_sync cmd [''--version''])
       (takeWhile (\<lambda>cmd. \<not> probe_ok (spawnSync h cmd [''--version''])) [''python3'', ''python''] @
        take 1 (dropWhile (\<lambda>cmd. \<not> probe_ok (spawnSync h cmd [''--version'']))
          [''python3'', ''python''])) \<and>
   (probe_ok r \<longleftrightarrow> (\<exists>out p q. r = Returns (Some 0) (Some out) \<and> out = p @ ''Python 3'' @ q)) \<and>
   (snd (findPython h) = None \<longrightarrow>
      postinstall h =
        \<lparr>trace = [Console_log ''Setting up WebSSH Python environment...'',
                  Spawn_sync ''python3'' [''--version''], Spawn_sync ''python'' [''--version''],
                  Console_error ''Error: Python 3 is required but not found.'',
                  Console_error ''Please install Python 3.10 or later.''],
         status = Exited 1\<rparr>)"
proof -
  have sel: "snd (findPython h) =
     find (\<lambda>cmd. probe_ok (spawnSync h cmd [''--version''])) [''python3'', ''python'']"
    unfolding findPython_def pythonCommands_def by (rule findPython_loop_find)
  have pr: "fst (findPython h) =
     map (\<lambda>cmd. Spawn_sync cmd [''--version''])
       (takeWhile (\<lambda>cmd. \<not> probe_ok (spawnSync h cmd [''--version''])) [''python3'', ''python''] @
        take 1 (dropWhile (\<lambda>cmd. \<not> probe_ok (spawnSync h cmd [''--version'']))
          [''python3'', ''python'']))"
    unfolding findPython_def pythonCommands_def by (rule findPython_loop_probes)
  from sel pr probe_ok_iff [of r] postinstall_no_python [of h] show ?thesis
    by (intro conjI impI)
qed

theorem runtime_detection_witness:
  "snd (findPython no_python_host) = None \<and>
   postinstall no_python_host =
        \<lparr>trace = [Console_log ''Setting up WebSSH Python environment...'',
                  Spawn_sync ''python3'' [''--version''], Spawn_sync ''python'' [''--version''],
                  Console_error ''Error: Python 3 is required but not found.'',
                  Console_error ''Please install Python 3.10 or later.''],
         status = Exited 1\<rparr> \<and>
   probe_ok (Returns (Some 0) (Some (''Python 3.11.4'' @ nl))) \<and>
   findPython bare_host = ([Spawn_sync ''python3'' [''--version'']], Some ''python3'')"
proof -
  have ok: "probe_ok (spawnSync bare_host ''python3'' [''--version''])"
    by (simp add: bare_host_def provisioned_host_def example_spawnSync_def probe_ok_def nl_def)
  have none: "\<not> probe_ok (spawnSync no_python_host cmd [''--version''])" for cmd
    by (simp add: no_python_host_def probe_ok_def)
  note bare = runtime_detection [of bare_host "Returns (Some 0) (Some (''Python 3.11.4'' @ nl))"]
  note nopy = runtime_detection [of no_python_host Throws]
  from nopy [THEN conjunct1] none have a: "snd (findPython no_python_host) = None"
    by simp
  from nopy [THEN conjunct2, THEN conjunct2, THEN conjunct2] a
  have b: "postinstall no_python_host =
        \<lparr>trace = [Console_log ''Setting up WebSSH Python environment...'',
                  Spawn_sync ''python3'' [''--version''], Spawn_sync ''python'' [''--version''],
                  Console_error ''Error: Python 3 is required but not found.'',
                  Console_error ''Please install Python 3.10 or later.''],
         status = Exited 1\<rparr>"
    by (rule mp)
  have "Returns (Some 0) (Some (''Python 3.11.4'' @ nl)) =
      Returns (Some 0) (Some (''Python 3.11.4'' @ nl)) \<and>
      ''Python 3.11.4'' @ nl = [] @ ''Python 3'' @ (''.11.4'' @ nl)"
    by simp
  then have "\<exists>out p q. Returns (Some 0) (Some (''Python 3.11.4'' @ nl)) =
      Returns (Some 0) (Some out) \<and> out = p @ ''Python 3'' @ q"
    by blast
  with bare [THEN conjunct2, THEN conjunct2, THEN conjunct1]
  have c: "probe_ok (Returns (Some 0) (Some (''Python 3.11.4'' @ nl)))"
    by (rule iffD2)
  from bare [THEN conjunct1] ok have d1: "snd (findPython bare_host) = Some ''python3''"
    by simp
  from bare [THEN conjunct2, THEN conjunct1] ok
  have d2: "fst (findPython bare_host) = [Spawn_sync ''python3'' [''--version'']]"
    by simp
  from d1 d2 have d: "findPython bare_host = ([Spawn_sync ''python3'' [''--version'']], Some ''python3'')"
    by (simp add: prod_eq_iff)
  show ?thesis
    by (intro conjI) (rule a b c d)+
qed

lemma postinstall_found:
  "snd (findPython h) = Some python \<Longrightarrow>
     postinstall h =
      (case execSync h (venv_command h python) of
         Some message \<Rightarrow>
           \<lparr>trace = preamble h python @
              [Exec_sync (venv_command h python) (pythonDir h),
               Console_error (''Failed to set up environment with '' @ installer_name h @ '': ''
                 @ message)],
            status = Exited 1\<rparr>
       | None \<Rightarrow>
          (case execSync h (install_command h) of
             Some message \<Rightarrow>
               \<lparr>trace = preamble h python @
                  [Exec_sync (venv_command h python) (pythonDir h),
                   Exec_sync (install_command h) (pythonDir h),
                   Console_error (''Failed to set up environment with '' @ installer_name h
                     @ '': '' @ message)],
                status = Exited 1\<rparr>
           | None \<Rightarrow>
               complete (preamble h python @
                 [Exec_sync (venv_command h python) (pythonDir h),
                  Exec_sync (install_command h) (pythonDir h)])))"
  by (simp add: postinstall_def Let_def with_uv_def with_pip_def venv_command_def
      install_command_def installer_name_def preamble_def using_line_def split: option.splits)

lemma executed_findPython_loop:
  "concat (map (\<lambda>e. case e of Exec_sync c d \<Rightarrow> [c] | _ \<Rightarrow> []) (fst (findPython_loop h cmds))) = []"
  by (induction cmds) simp_all

lemma executed_preamble:
  "executed \<lparr>trace = preamble h python @ evs, status = st\<rparr> =
     executed \<lparr>trace = evs, status = st\<rparr>"
  by (simp add: executed_def preamble_def findPython_def executed_findPython_loop)

lemma probes_preamble:
  "probed \<lparr>trace = preamble h python @ evs, status = st\<rparr> =
     probed \<lparr>trace = fst (findPython h), status = st\<rparr> @ (''uv'', [''--version'']) #
     probed \<lparr>trace = evs, status = st\<rparr>"
  by (simp add: probed_def preamble_def)

lemma executed_postinstall:
  "snd (findPython h) = Some python \<Longrightarrow>
     executed (postinstall h) =
       (if execSync h (venv_command h python) = None
        then [venv_command h python, install_command h] else [venv_command h python])"
  by (simp add: postinstall_found executed_preamble complete_def split: option.splits)
    (simp add: executed_def)

lemma probes_postinstall:
  "snd (findPython h) = Some python \<Longrightarrow>
     probed (postinstall h) =
       probed \<lparr>trace = fst (findPython h), status = Running\<rparr> @ [(''uv'', [''--version''])]"
  by (simp add: postinstall_found probes_preamble complete_def split: option.splits)
    (simp add: probed_def)

lemma example_findPython:
  "findPython bare_host = ([Spawn_sync ''python3'' [''--version'']], Some ''python3'')"
  "findPython uv_host = ([Spawn_sync ''python3'' [''--version'']], Some ''python3'')"
  "findPython venv_failing_host = ([Spawn_sync ''python3'' [''--version'']], Some ''python3'')"
  by (simp_all add: findPython_def pythonCommands_def probe_ok_def nl_def uv_host_def
      venv_failing_host_def example_defs)

lemma example_hasUv: "\<not> hasUv bare_host" "hasUv uv_host" "\<not> hasUv venv_failing_host"
  by (simp_all add: hasUv_def uv_host_def venv_failing_host_def example_defs)

lemma example_venvDir:
  "venvDir bare_host = ''/opt/webssh/python/.venv''"
  "venvDir uv_host = ''/opt/webssh/python/.venv''"
  "venvDir venv_failing_host = ''/opt/webssh/python/.venv''"
  by (simp_all add: uv_host_def venv_failing_host_def example_defs)

lemma example_execSync:
  "execSync bare_host c = None"
  "execSync uv_host (''uv venv '' @ x) = None"
  "execSync uv_host (''uv pip install --python '' @ x) = Some ''Command failed: uv pip install''"
  "execSync venv_failing_host c = Some ''Command failed: python3 -m venv''"
  by (simp_all add: uv_host_def venv_failing_host_def example_defs)

text \<open>
  C7. \<open>hasUv\<close> selects uv if and only if the probe \<open>uv --version\<close> returns status 0;
  otherwise pip is used, with no more probing (the run's probes are those of
  \<open>findPython\<close> and then this one) and no error. The commands of the run are the
  creation of the environment and, if that succeeds, the installation: with uv both go
  through \<open>uv\<close> and name the environment directory (\<open>--python\<close> for the installation),
  with pip the installation calls the pip executable of the environment,
  \<open>Scripts/pip.exe\<close> on \<open>win32\<close> and \<open>bin/pip\<close> elsewhere.
\<close>

theorem installer_selection:
  "(hasUv h \<longleftrightarrow> (\<exists>out. spawnSync h ''uv'' [''--version''] = Returns (Some 0) out)) \<and>
   (snd (findPython h) = Some python \<longrightarrow>
      probed (postinstall h) =
        probed \<lparr>trace = fst (findPython h), status = Running\<rparr> @ [(''uv'', [''--version''])] \<and>
      executed (postinstall h) =
        (if execSync h (venv_command h python) = None
         then [venv_command h python, install_command h] else [venv_command h python]) \<and>
      (hasUv h \<longrightarrow>
         venv_command h python = ''uv venv '' @ dq @ venvDir h @ dq \<and>
         install_command h =
           ''uv pip install --python '' @ dq @ venvDir h @ dq @ '' fastapi uvicorn websockets'') \<and>
      (\<not> hasUv h \<longrightarrow>
         venv_command h python = python @ '' -m venv '' @ dq @ venvDir h @ dq \<and>
         install_command h =
           dq @ (if platform h = ''win32'' then path_join h [venvDir h, ''Scripts'', ''pip.exe'']
                 else path_join h [venvDir h, ''bin'', ''pip''])
           @ dq @ '' install fastapi uvicorn websockets''))"
proof -
  have uv: "hasUv h \<longleftrightarrow> (\<exists>out. spawnSync h ''uv'' [''--version''] = Returns (Some 0) out)"
    by (cases "spawnSync h ''uv'' [''--version'']") (simp_all add: hasUv_def)
  have with_uv: "venv_command h python = ''uv venv '' @ dq @ venvDir h @ dq \<and>
         install_command h =
           ''uv pip install --python '' @ dq @ venvDir h @ dq @ '' fastapi uvicorn websockets''"
    if "hasUv h"
    using that by (simp add: venv_command_def install_command_def uv_venv_def uv_install_def)
  have with_pip: "venv_command h python = python @ '' -m venv '' @ dq @ venvDir h @ dq \<and>
         install_command h =
           dq @ (if platform h = ''win32'' then path_join h [venvDir h, ''Scripts'', ''pip.exe'']
                 else path_join h [venvDir h, ''bin'', ''pip''])
           @ dq @ '' install fastapi uvicorn websockets''"
    if "\<not> hasUv h"
    using that
    by (simp add: venv_command_def install_command_def python_venv_def pip_install_def
        pipPath_def)
  have pr: "probed (postinstall h) =
        probed \<lparr>trace = fst (findPython h), status = Running\<rparr> @ [(''uv'', [''--version''])]"
    if "snd (findPython h) = Some python"
    using that by (rule probes_postinstall)
  have ex: "executed (postinstall h) =
        (if execSync h (venv_command h python) = None
         then [venv_command h python, install_command h] else [venv_command h python])"
    if "snd (findPython h) = Some python"
    using that by (rule executed_postinstall)
  show ?thesis
    apply (rule conjI, rule uv)
    apply (rule impI)
    apply (rule conjI, erule pr)
    apply (rule conjI, erule ex)
    apply (rule conjI)
     apply (rule impI, erule with_uv)
    apply (rule impI, erule with_pip)
    done
qed

theorem installer_selection_witness:
  "\<not> hasUv bare_host \<and> snd (findPython bare_host) = Some ''python3'' \<and>
   probed (postinstall bare_host) = [(''python3'', [''--version'']), (''uv'', [''--version''])] \<and>
   executed (postinstall bare_host) =
     [''python3 -m venv '' @ dq @ ''/opt/webssh/python/.venv'' @ dq,
      dq @ ''/opt/webssh/python/.venv/bin/pip'' @ dq @ '' install fastapi uvicorn websockets''] \<and>
   hasUv uv_host \<and> snd (findPython uv_host) = Some ''python3'' \<and>
   executed (postinstall uv_host) =
     [''uv venv '' @ dq @ ''/opt/webssh/python/.venv'' @ dq,
      ''uv pip install --python '' @ dq @ ''/opt/webssh/python/.venv'' @ dq
        @ '' fastapi uvicorn websockets'']"
proof -
  note pip = example_hasUv(1)
  note uv = example_hasUv(2)
  have linux: "platform bare_host \<noteq> ''win32''"
    "path_join bare_host [''/opt/webssh/python/.venv'', ''bin'', ''pip''] =
       ''/opt/webssh/python/.venv/bin/pip''"
    by (simp_all add: example_defs)
  have fb: "snd (findPython bare_host) = Some ''python3''"
    by (simp add: example_findPython)
  have fu: "snd (findPython uv_host) = Some ''python3''"
    by (simp add: example_findPython)
  note b = installer_selection [of bare_host "''python3''", THEN conjunct2, THEN mp, OF fb]
  note u = installer_selection [of uv_host "''python3''", THEN conjunct2, THEN mp, OF fu]
  note b_pip = b [THEN conjunct2, THEN conjunct2, THEN conjunct2, THEN mp, OF pip]
  note u_uv = u [THEN conjunct2, THEN conjunct2, THEN conjunct1, THEN mp, OF uv]
  from b_pip [THEN conjunct1] have venv_cmd: "venv_command bare_host ''python3'' =
      ''python3 -m venv '' @ dq @ ''/opt/webssh/python/.venv'' @ dq"
    by (simp add: example_venvDir)
  from b_pip [THEN conjunct2] have install_cmd: "install_command bare_host =
      dq @ ''/opt/webssh/python/.venv/bin/pip'' @ dq @ '' install fastapi uvicorn websockets''"
    by (simp add: example_venvDir linux)
  from u_uv [THEN conjunct1] have venv_uv: "venv_command uv_host ''python3'' =
      ''uv venv '' @ dq @ ''/opt/webssh/python/.venv'' @ dq"
    by (simp add: example_venvDir)
  from u_uv [THEN conjunct2] have install_uv: "install_command uv_host =
      ''uv pip install --python '' @ dq @ ''/opt/webssh/python/.venv'' @ dq
        @ '' fastapi uvicorn websockets''"
    by (simp add: example_venvDir)
  from b [THEN conjunct1] have pr: "probed (postinstall bare_host) =
      [(''python3'', [''--version'']), (''uv'', [''--version''])]"
    by (simp add: example_findPython probed_def)
  have ok_b: "execSync bare_host (venv_command bare_host ''python3'') = None"
    by (rule example_execSync)
  have ok_u: "execSync uv_host (venv_command uv_host ''python3'') = None"
    unfolding venv_uv by (rule example_execSync)
  from b [THEN conjunct2, THEN conjunct1] ok_b
  have "executed (postinstall bare_host) =
      [venv_command bare_host ''python3'', install_command bare_host]"
    by simp
  then have ex: "executed (postinstall bare_host) =
     [''python3 -m venv '' @ dq @ ''/opt/webssh/python/.venv'' @ dq,
      dq @ ''/opt/webssh/python/.venv/bin/pip'' @ dq @ '' install fastapi uvicorn websockets'']"
    by (simp only: venv_cmd install_cmd)
  from u [THEN conjunct2, THEN conjunct1] ok_u
  have "executed (postinstall uv_host) =
      [venv_command uv_host ''python3'', install_command uv_host]"
    by simp
  then have ex_uv: "executed (postinstall uv_host) =
     [''uv venv '' @ dq @ ''/opt/webssh/python/.venv'' @ dq,
      ''uv pip install --python '' @ dq @ ''/opt/webssh/python/.venv'' @ dq
        @ '' fastapi uvicorn websockets'']"
    by (simp only: venv_uv install_uv)
  show ?thesis
    by (intro conjI) (rule pip fb pr ex uv fu ex_uv)+
qed

text \<open>
  C8. Once a Python is found, a failure of the command that creates the environment, or
  of the command that installs the dependencies after it, ends the run there: the next
  and last effect is one error line that carries the message of the failed command, the
  exit code is 1, and no further command (no removal of what was created) is run.
\<close>

theorem provisioning_failure:
  "snd (findPython h) = Some python \<Longrightarrow>
     (execSync h (venv_command h python) = Some message \<longrightarrow>
        postinstall h =
          \<lparr>trace = preamble h python @
             [Exec_sync (venv_command h python) (pythonDir h),
              Console_error (''Failed to set up environment with '' @ installer_name h @ '': ''
                @ message)],
           status = Exited 1\<rparr> \<and>
        executed (postinstall h) = [venv_command h python]) \<and>
     (execSync h (venv_command h python) = None \<and>
      execSync h (install_command h) = Some message \<longrightarrow>
        postinstall h =
          \<lparr>trace = preamble h python @
             [Exec_sync (venv_command h python) (pythonDir h),
              Exec_sync (install_command h) (pythonDir h),
              Console_error (''Failed to set up environment with '' @ installer_name h @ '': ''
                @ message)],
           status = Exited 1\<rparr> \<and>
        executed (postinstall h) = [venv_command h python, install_command h])"
proof -
  assume found: "snd (findPython h) = Some python"
  have first: "postinstall h =
          \<lparr>trace = preamble h python @
             [Exec_sync (venv_command h python) (pythonDir h),
              Console_error (''Failed to set up environment with '' @ installer_name h @ '': ''
                @ message)],
           status = Exited 1\<rparr> \<and>
        executed (postinstall h) = [venv_command h python]"
    if "execSync h (venv_command h python) = Some message"
    using that
    by (intro conjI) (simp add: postinstall_found [OF found], simp add: executed_postinstall [OF found])
  have second: "postinstall h =
          \<lparr>trace = preamble h python @
             [Exec_sync (venv_command h python) (pythonDir h),
              Exec_sync (install_command h) (pythonDir h),
              Console_error (''Failed to set up environment with '' @ installer_name h @ '': ''
                @ message)],
           status = Exited 1\<rparr> \<and>
        executed (postinstall h) = [venv_command h python, install_command h]"
    if "execSync h (venv_command h python) = None \<and>
      execSync h (install_command h) = Some message"
    using that
    by (intro conjI) (simp add: postinstall_found [OF found], simp add: executed_postinstall [OF found])
  show ?thesis
    apply (rule conjI)
     apply (rule impI, erule first)
    apply (rule impI, erule second)
    done
qed

theorem provisioning_failure_witness:
  "snd (findPython uv_host) = Some ''python3'' \<and>
   execSync uv_host (venv_command uv_host ''python3'') = None \<and>
   execSync uv_host (install_command uv_host) = Some ''Command failed: uv pip install'' \<and>
   status (postinstall uv_host) = Exited 1 \<and>
   last (trace (postinstall uv_host)) =
     Console_error ''Failed to set up environment with uv: Command failed: uv pip install'' \<and>
   executed (postinstall uv_host) =
     [''uv venv '' @ dq @ ''/opt/webssh/python/.venv'' @ dq,
      ''uv pip install --python '' @ dq @ ''/opt/webssh/python/.venv'' @ dq
        @ '' fastapi uvicorn websockets''] \<and>
   snd (findPython venv_failing_host) = Some ''python3'' \<and>
   execSync venv_failing_host (venv_command venv_failing_host ''python3'') =
     Some ''Command failed: python3 -m venv'' \<and>
   status (postinstall venv_failing_host) = Exited 1 \<and>
   last (trace (postinstall venv_failing_host)) =
     Console_error ''Failed to set up environment with pip: Command failed: python3 -m venv'' \<and>
   executed (postinstall venv_failing_host) =
     [''python3 -m venv '' @ dq @ ''/opt/webssh/python/.venv'' @ dq]"
proof -
  have fu: "snd (findPython uv_host) = Some ''python3''"
    by (simp add: example_findPython)
  have ff: "snd (findPython venv_failing_host) = Some ''python3''"
    by (simp add: example_findPython)
  have cu: "venv_command uv_host ''python3'' = ''uv venv '' @ dq @ ''/opt/webssh/python/.venv'' @ dq"
    "install_command uv_host =
       ''uv pip install --python '' @ dq @ ''/opt/webssh/python/.venv'' @ dq
         @ '' fastapi uvicorn websockets''"
    "installer_name uv_host = ''uv''"
    by (simp_all add: venv_command_def install_command_def installer_name_def uv_venv_def
        uv_install_def example_hasUv example_venvDir)
  have cf: "venv_command venv_failing_host ''python3'' =
       ''python3 -m venv '' @ dq @ ''/opt/webssh/python/.venv'' @ dq"
    "installer_name venv_failing_host = ''pip''"
    by (simp_all add: venv_command_def installer_name_def python_venv_def example_hasUv
        example_venvDir)
  have eu1: "execSync uv_host (venv_command uv_host ''python3'') = None"
    unfolding cu by (rule example_execSync)
  have eu2: "execSync uv_host (install_command uv_host) = Some ''Command failed: uv pip install''"
    unfolding cu by (rule example_execSync)
  have ef: "execSync venv_failing_host (venv_command venv_failing_host ''python3'') =
      Some ''Command failed: python3 -m venv''"
    by (rule example_execSync)
  note u = provisioning_failure [OF fu, of "''Command failed: uv pip install''",
      THEN conjunct2, THEN mp, OF conjI, OF eu1 eu2]
  note f = provisioning_failure [OF ff, of "''Command failed: python3 -m venv''",
      THEN conjunct1, THEN mp, OF ef]
  from u [THEN conjunct1] have su: "status (postinstall uv_host) = Exited 1"
    by simp
  from u [THEN conjunct1] have lu: "last (trace (postinstall uv_host)) =
      Console_error ''Failed to set up environment with uv: Command failed: uv pip install''"
    by (simp add: cu)
  from u [THEN conjunct2] have xu: "executed (postinstall uv_host) =
     [''uv venv '' @ dq @ ''/opt/webssh/python/.venv'' @ dq,
      ''uv pip install --python '' @ dq @ ''/opt/webssh/python/.venv'' @ dq
        @ '' fastapi uvicorn websockets'']"
    by (simp only: cu)
  from f [THEN conjunct1] have sf: "status (postinstall venv_failing_host) = Exited 1"
    by simp
  from f [THEN conjunct1] have lf: "last (trace (postinstall venv_failing_host)) =
      Console_error ''Failed to set up environment with pip: Command failed: python3 -m venv''"
    by (simp add: cf)
  from f [THEN conjunct2] have xf: "executed (postinstall venv_failing_host) =
     [''python3 -m venv '' @ dq @ ''/opt/webssh/python/.venv'' @ dq]"
    by (simp only: cf)
  show ?thesis
    by (intro conjI) (rule fu eu1 eu2 su lu xu ff ef sf lf xf)+
qed

end
